theory Spec2Isabelle
  imports Main "HOL-Library.FSet" "HOL-Library.AList"
begin

section \<open>Values exchanged on the wire\<close>

text \<open>
  All payloads of \<^verbatim>\<open>server.py\<close> are Python values obtained from \<^verbatim>\<open>json.loads\<close> or built
  from dict literals. A Python dict keeps insertion order and has unique keys; it is an
  association list here. JSON numbers are restricted to integers (no property below looks at a
  number).
\<close>

datatype json =
    JNull
  | JBool bool
  | JInt int
  | JStr string
  | JArr "json list"
  | JObj "(string \<times> json) list"

type_synonym pydict = "(string \<times> json) list"

text \<open>\<^verbatim>\<open>d.get(k)\<close> and \<^verbatim>\<open>d.get(k, default)\<close> on a dict of JSON values.\<close>

definition get_or :: "pydict \<Rightarrow> string \<Rightarrow> json \<Rightarrow> json" where
  "get_or d k dflt = (case map_of d k of None \<Rightarrow> dflt | Some v \<Rightarrow> v)"

definition get :: "pydict \<Rightarrow> string \<Rightarrow> json" where
  "get d k = get_or d k JNull"

text \<open>\<^verbatim>\<open>d.setdefault(k, v)\<close>: the key is added (at the end) only when it is absent.\<close>

definition setdefault :: "pydict \<Rightarrow> string \<Rightarrow> json \<Rightarrow> pydict" where
  "setdefault d k v = (if k \<in> fst ` set d then d else d @ [(k, v)])"

text \<open>Truth value of a Python object, as \<^verbatim>\<open>or\<close> and \<^verbatim>\<open>not\<close> test it.\<close>

fun truthy :: "json \<Rightarrow> bool" where
  "truthy JNull = False"
| "truthy (JBool b) = b"
| "truthy (JInt n) = (n \<noteq> 0)"
| "truthy (JStr s) = (s \<noteq> [])"
| "truthy (JArr xs) = (xs \<noteq> [])"
| "truthy (JObj kvs) = (kvs \<noteq> [])"

text \<open>
  \<^verbatim>\<open>str.strip()\<close>: characters are code points below 256; the white space of Python's
  \<^verbatim>\<open>str.isspace\<close> in that range.
\<close>

definition py_isspace :: "char \<Rightarrow> bool" where
  "py_isspace c = ((of_char c :: nat) \<in> {9, 10, 11, 12, 13, 28, 29, 30, 31, 32, 133, 160})"

definition strip :: "string \<Rightarrow> string" where
  "strip s = rev (dropWhile py_isspace (rev (dropWhile py_isspace s)))"

text \<open>\<^verbatim>\<open>xs[i:]\<close>: a negative index counts from the end, and the bounds are clamped.\<close>

definition slice_from :: "'a list \<Rightarrow> int \<Rightarrow> 'a list" where
  "slice_from xs i =
     (let n = int (length xs);
          j = (if i < 0 then max (n + i) 0 else min i n)
      in drop (nat j) xs)"

section \<open>Message store\<close>

text \<open>
  \<^verbatim>\<open>MESSAGES\<close> is a \<^verbatim>\<open>defaultdict(list)\<close> from user id to the list of message dicts.
  \<^verbatim>\<open>MESSAGES[user_id].append(msg)\<close> creates the key when it is missing;
  \<^verbatim>\<open>MESSAGES.get(user_id, [])\<close> does not.
\<close>

type_synonym store = "string \<rightharpoonup> json list"

definition store_get :: "store \<Rightarrow> string \<Rightarrow> json list" where
  "store_get ms user_id = (case ms user_id of None \<Rightarrow> [] | Some xs \<Rightarrow> xs)"

definition store_append :: "store \<Rightarrow> string \<Rightarrow> json \<Rightarrow> store" where
  "store_append ms user_id msg = ms(user_id \<mapsto> store_get ms user_id @ [msg])"

definition history_messages :: "store \<Rightarrow> string \<Rightarrow> json list" where
  "history_messages ms user_id = slice_from (store_get ms user_id) (- 200)"

definition get_history :: "store \<Rightarrow> string \<Rightarrow> json" where
  "get_history ms user_id =
     JObj [(''user_id'', JStr user_id), (''messages'', JArr (history_messages ms user_id))]"

text \<open>A run of appends \<^verbatim>\<open>(user_id, msg)\<close>, in the order they are performed.\<close>

definition append_all :: "store \<Rightarrow> (string \<times> json) list \<Rightarrow> store" where
  "append_all ms as = foldl (\<lambda>s (u, m). store_append s u m) ms as"

definition appended_for :: "string \<Rightarrow> (string \<times> json) list \<Rightarrow> json list" where
  "appended_for user_id as = map snd (filter (\<lambda>(u, m). u = user_id) as)"

section \<open>What the runtime provides\<close>

text \<open>
  The clock, the id generator, the transport and the standard library are outside the
  repository. One operation sees them through \<open>env\<close>:
  \<^item> \<open>send_fails ws\<close>: \<^verbatim>\<open>ws.send_text\<close> raises for this connection;
  \<^item> \<open>put_fails q\<close>: \<^verbatim>\<open>q.put_nowait\<close> raises for this queue;
  \<^item> \<open>utc_iso\<close>, \<open>uuid4\<close>: the values of \<^verbatim>\<open>utc_iso()\<close> and \<^verbatim>\<open>str(uuid.uuid4())\<close>;
  \<^item> \<open>loads\<close>: \<^verbatim>\<open>json.loads\<close>, which returns a value, raises \<^verbatim>\<open>JSONDecodeError\<close> on a
    text that is not JSON, or raises another exception (\<^verbatim>\<open>ValueError\<close> on an integer with
    more digits than the interpreter converts, \<^verbatim>\<open>RecursionError\<close> on a deeply nested
    text);
  \<^item> \<open>repr\<close>: \<^verbatim>\<open>str(v)\<close> of a value that is not a string.
\<close>

datatype error =
    HTTPException nat string
  | AttributeError
  | TypeError
  | SendError
  | ValueError
  | RecursionError

datatype decoded =
    Decoded json
  | JSONDecodeError
  | Raised error

record env =
  send_fails :: "nat \<Rightarrow> bool"
  put_fails :: "nat \<Rightarrow> bool"
  utc_iso :: string
  uuid4 :: string
  loads :: "string \<Rightarrow> decoded"
  repr :: "json \<Rightarrow> string"

definition py_str :: "env \<Rightarrow> json \<Rightarrow> string" where
  "py_str e v = (case v of JStr s \<Rightarrow> s | _ \<Rightarrow> repr e v)"

section \<open>Hub\<close>

text \<open>
  Connections and queues are Python objects compared by identity: a natural number each.
  \<open>ws_by_user\<close> and \<open>ws_rooms\<close> are \<^verbatim>\<open>defaultdict(set)\<close>, \<open>sse_queues\<close> is a
  \<^verbatim>\<open>defaultdict(list)\<close>. Besides the three mappings and \<^verbatim>\<open>MESSAGES\<close> the state records
  what the program did to the outside: the frames every connection was sent, the items of
  every queue, and the order of lock operations, mutations, sends and puts.
\<close>

datatype registry = ChatByUser | RoomMembers | PushSubscribers

datatype effect = Acquire | Release | Mutate registry | Send nat | Put nat

record world =
  ws_by_user :: "string \<rightharpoonup> nat fset"
  ws_rooms :: "string \<rightharpoonup> nat fset"
  sse_queues :: "string \<rightharpoonup> nat list"
  MESSAGES :: store
  ws_received :: "nat \<Rightarrow> json list"
  queue_items :: "nat \<Rightarrow> json list"
  next_queue :: nat
  effects :: "effect list"

definition init_world :: world where
  "init_world = \<lparr> ws_by_user = Map.empty, ws_rooms = Map.empty, sse_queues = Map.empty,
     MESSAGES = Map.empty, ws_received = (\<lambda>_. []), queue_items = (\<lambda>_. []),
     next_queue = 0, effects = [] \<rparr>"

text \<open>\<^verbatim>\<open>d.get(k, [])\<close> on the two kinds of registry (the key is not created).\<close>

definition members :: "(string \<rightharpoonup> nat fset) \<Rightarrow> string \<Rightarrow> nat fset" where
  "members d k = (case d k of None \<Rightarrow> {||} | Some S \<Rightarrow> S)"

definition queues_of :: "(string \<rightharpoonup> nat list) \<Rightarrow> string \<Rightarrow> nat list" where
  "queues_of d k = (case d k of None \<Rightarrow> [] | Some qs \<Rightarrow> qs)"

text \<open>\<^verbatim>\<open>d[k].add(x)\<close>: the default dict creates the key.\<close>

definition set_add :: "(string \<rightharpoonup> nat fset) \<Rightarrow> string \<Rightarrow> nat \<Rightarrow> (string \<rightharpoonup> nat fset)" where
  "set_add d k x = d(k \<mapsto> finsert x (members d k))"

text \<open>
  \<^verbatim>\<open>d[k].discard(x); if not d[k]: d.pop(k, None)\<close>: the first statement creates the
  key when it is missing, the second removes it when its set is empty.
\<close>

definition set_discard :: "(string \<rightharpoonup> nat fset) \<Rightarrow> string \<Rightarrow> nat \<Rightarrow> (string \<rightharpoonup> nat fset)" where
  "set_discard d k x =
     (let d1 = d(k \<mapsto> members d k |-| {|x|})
      in if members d1 k = {||} then d1(k := None) else d1)"

definition log :: "effect list \<Rightarrow> world \<Rightarrow> world" where
  "log es w = w\<lparr>effects := effects w @ es\<rparr>"

definition add_ws_user :: "world \<Rightarrow> string \<Rightarrow> nat \<Rightarrow> world" where
  "add_ws_user w user_id ws =
     log [Release]
       ((log [Acquire, Mutate ChatByUser] w)
          \<lparr>ws_by_user := set_add (ws_by_user w) user_id ws\<rparr>)"

definition remove_ws_user :: "world \<Rightarrow> string \<Rightarrow> nat \<Rightarrow> world" where
  "remove_ws_user w user_id ws =
     log [Release]
       ((log [Acquire, Mutate ChatByUser] w)
          \<lparr>ws_by_user := set_discard (ws_by_user w) user_id ws\<rparr>)"

definition add_ws_room :: "world \<Rightarrow> string \<Rightarrow> nat \<Rightarrow> world" where
  "add_ws_room w room_id ws =
     log [Release]
       ((log [Acquire, Mutate RoomMembers] w)
          \<lparr>ws_rooms := set_add (ws_rooms w) room_id ws\<rparr>)"

definition remove_ws_room :: "world \<Rightarrow> string \<Rightarrow> nat \<Rightarrow> world" where
  "remove_ws_room w room_id ws =
     log [Release]
       ((log [Acquire, Mutate RoomMembers] w)
          \<lparr>ws_rooms := set_discard (ws_rooms w) room_id ws\<rparr>)"

text \<open>
  \<^verbatim>\<open>await ws.send_text(json.dumps(payload))\<close>: the flag tells whether the call returned;
  a frame that was sent is recorded by its content.
\<close>

definition send_text :: "env \<Rightarrow> world \<Rightarrow> nat \<Rightarrow> json \<Rightarrow> bool \<times> world" where
  "send_text e w ws payload =
     (let w1 = log [Send ws] w
      in if send_fails e ws then (False, w1)
         else (True, w1\<lparr>ws_received := (ws_received w1)(ws := ws_received w1 ws @ [payload])\<rparr>))"

definition put_nowait :: "env \<Rightarrow> world \<Rightarrow> nat \<Rightarrow> json \<Rightarrow> bool \<times> world" where
  "put_nowait e w q item =
     (let w1 = log [Put q] w
      in if put_fails e q then (False, w1)
         else (True, w1\<lparr>queue_items := (queue_items w1)(q := queue_items w1 q @ [item])\<rparr>))"

text \<open>
  \<^verbatim>\<open>list(s)\<close> of a set: Python leaves the order open; the ascending order of the
  identities stands for it.
\<close>

definition snapshot :: "nat fset \<Rightarrow> nat list" where
  "snapshot S = sorted_list_of_fset S"

text \<open>The two loops of \<^verbatim>\<open>broadcast_to_user\<close>, over the snapshots taken before each.\<close>

fun send_each_user :: "env \<Rightarrow> string \<Rightarrow> json \<Rightarrow> nat list \<Rightarrow> world \<Rightarrow> world" where
  "send_each_user e user_id payload [] w = w"
| "send_each_user e user_id payload (ws # rest) w =
     send_each_user e user_id payload rest
       (case send_text e w ws payload of
          (True, w') \<Rightarrow> w'
        | (False, w') \<Rightarrow> remove_ws_user w' user_id ws)"

fun put_each :: "env \<Rightarrow> json \<Rightarrow> nat list \<Rightarrow> world \<Rightarrow> world" where
  "put_each e payload [] w = w"
| "put_each e payload (q # rest) w =
     put_each e payload rest (snd (put_nowait e w q payload))"

definition broadcast_to_user :: "env \<Rightarrow> world \<Rightarrow> string \<Rightarrow> json \<Rightarrow> world" where
  "broadcast_to_user e w user_id payload =
     (let w1 = send_each_user e user_id payload (snapshot (members (ws_by_user w) user_id)) w
      in put_each e payload (queues_of (sse_queues w1) user_id) w1)"

fun send_each_room :: "env \<Rightarrow> string \<Rightarrow> json \<Rightarrow> nat \<Rightarrow> nat list \<Rightarrow> world \<Rightarrow> world" where
  "send_each_room e room_id payload sender [] w = w"
| "send_each_room e room_id payload sender (ws # rest) w =
     send_each_room e room_id payload sender rest
       (if ws = sender then w
        else (case send_text e w ws payload of
                (True, w') \<Rightarrow> w'
              | (False, w') \<Rightarrow> remove_ws_room w' room_id ws))"

definition broadcast_room :: "env \<Rightarrow> world \<Rightarrow> string \<Rightarrow> json \<Rightarrow> nat \<Rightarrow> world" where
  "broadcast_room e w room_id payload sender =
     send_each_room e room_id payload sender (snapshot (members (ws_rooms w) room_id)) w"

section \<open>REST: posting a message\<close>

text \<open>
  \<^verbatim>\<open>post_message\<close> (lines 118 to 137). \<^verbatim>\<open>(payload.get("role") or "user").strip()\<close> is
  evaluated before the check of \<^verbatim>\<open>user_id\<close> and \<^verbatim>\<open>text\<close>, and \<^verbatim>\<open>strip\<close> exists on strings
  only.
\<close>

definition role_of :: "pydict \<Rightarrow> error + string" where
  "role_of payload =
     (let r = get payload ''role'';
          r' = (if truthy r then r else JStr ''user'')
      in case r' of JStr s \<Rightarrow> Inr (strip s) | _ \<Rightarrow> Inl AttributeError)"

definition new_message :: "env \<Rightarrow> string \<Rightarrow> string \<Rightarrow> string \<Rightarrow> json" where
  "new_message e user_id role text =
     JObj [(''id'', JStr (uuid4 e)), (''ts'', JStr (utc_iso e)), (''user_id'', JStr user_id),
           (''role'', JStr role), (''text'', JStr text)]"

definition post_message :: "env \<Rightarrow> world \<Rightarrow> pydict \<Rightarrow> (error + json) \<times> world" where
  "post_message e w payload =
     (let user_id = strip (py_str e (get_or payload ''user_id'' (JStr [])));
          text = strip (py_str e (get_or payload ''text'' (JStr [])))
      in case role_of payload of
           Inl err \<Rightarrow> (Inl err, w)
         | Inr role \<Rightarrow>
             if user_id = [] \<or> text = []
             then (Inl (HTTPException 400 ''user_id and text are required''), w)
             else
               (let msg = new_message e user_id role text;
                    w1 = w\<lparr>MESSAGES := store_append (MESSAGES w) user_id msg\<rparr>;
                    w2 = broadcast_to_user e w1 user_id
                           (JObj [(''type'', JStr ''message''), (''data'', msg)])
                in (Inr (JObj [(''ok'', JBool True), (''message'', msg)]), w2)))"

definition dev_reset :: "world \<Rightarrow> world" where
  "dev_reset w = w\<lparr>MESSAGES := Map.empty\<rparr>"

section \<open>Push stream\<close>

text \<open>
  \<^verbatim>\<open>sse\<close> (lines 145 and 146) creates a queue and appends it to
  \<^verbatim>\<open>hub.sse_queues[user_id]\<close>; the generator first puts the greeting (line 150) and at
  its end runs \<^verbatim>\<open>hub.sse_queues[user_id].remove(q)\<close>, where a \<^verbatim>\<open>ValueError\<close> is
  passed over (lines 163 to 167). Neither takes \<^verbatim>\<open>hub._lock\<close>.
\<close>

definition sse :: "world \<Rightarrow> string \<Rightarrow> nat \<times> world" where
  "sse w user_id =
     (let q = next_queue w;
          w1 = w\<lparr>next_queue := Suc q, queue_items := (queue_items w)(q := [])\<rparr>
      in (q, (log [Mutate PushSubscribers] w1)
               \<lparr>sse_queues := (sse_queues w1)(user_id \<mapsto> queues_of (sse_queues w1) user_id @ [q])\<rparr>))"

definition event_gen_start :: "env \<Rightarrow> world \<Rightarrow> nat \<Rightarrow> world" where
  "event_gen_start e w q =
     w\<lparr>queue_items := (queue_items w)(q := queue_items w q @
          [JObj [(''type'', JStr ''sse_hello''),
                 (''data'', JObj [(''ts'', JStr (utc_iso e)), (''note'', JStr ''connected'')])]])\<rparr>"

definition event_gen_finally :: "world \<Rightarrow> string \<Rightarrow> nat \<Rightarrow> world" where
  "event_gen_finally w user_id q =
     (log [Mutate PushSubscribers] w)
       \<lparr>sse_queues := (sse_queues w)(user_id \<mapsto> remove1 q (queues_of (sse_queues w) user_id))\<rparr>"

section \<open>Chat channel\<close>

datatype inbound = Frame string | Disconnect

datatype status = Open | Closed

text \<open>
  One pass through the body of the receive loop of \<^verbatim>\<open>ws_chat\<close> (lines 190 to 210) for a
  received text: \<open>None\<close> when the pass ends and the loop goes on, \<open>Some err\<close> when an
  exception leaves the loop body, with the state at that point.
\<close>

text \<open>
  Lines 191 to 194: only \<^verbatim>\<open>JSONDecodeError\<close> is caught and replaced by the wrapper; any
  other exception of \<^verbatim>\<open>json.loads\<close> leaves the loop body.
\<close>

definition chat_normalize :: "env \<Rightarrow> string \<Rightarrow> error + json" where
  "chat_normalize e raw =
     (case loads e raw of
        Decoded v \<Rightarrow> Inr v
      | JSONDecodeError \<Rightarrow>
          Inr (JObj [(''type'', JStr ''text''), (''data'', JObj [(''text'', JStr raw)])])
      | Raised err \<Rightarrow> Inl err)"

definition send_or_raise :: "env \<Rightarrow> world \<Rightarrow> nat \<Rightarrow> json \<Rightarrow> error option \<times> world" where
  "send_or_raise e w ws payload =
     (case send_text e w ws payload of
        (True, w') \<Rightarrow> (None, w')
      | (False, w') \<Rightarrow> (Some SendError, w'))"

definition ws_chat_frame :: "env \<Rightarrow> world \<Rightarrow> string \<Rightarrow> nat \<Rightarrow> string \<Rightarrow> error option \<times> world" where
  "ws_chat_frame e w user_id websocket raw =
     (case chat_normalize e raw of
        Inl err \<Rightarrow> (Some err, w)
      | Inr (JObj msg) \<Rightarrow>
          (let mtype = get msg ''type'' in
           if mtype = JStr ''ping''
           then send_or_raise e w websocket
                  (JObj [(''type'', JStr ''pong''), (''ts'', JStr (utc_iso e))])
           else if mtype = JStr ''message''
           then (case send_or_raise e w websocket
                        (JObj [(''type'', JStr ''echo''), (''data'', get msg ''data'')]) of
                   (Some err, w1) \<Rightarrow> (Some err, w1)
                 | (None, w1) \<Rightarrow>
                     (case (if truthy (get msg ''data'') then get msg ''data'' else JObj []) of
                        JObj d \<Rightarrow>
                          (None, broadcast_to_user e w1 user_id
                             (JObj [(''type'', JStr ''message''),
                                    (''data'', JObj (AList.update ''ts'' (JStr (utc_iso e))
                                       (AList.update ''echoed'' (JBool True) d)))]))
                      | _ \<Rightarrow> (Some TypeError, w1)))
           else send_or_raise e w websocket
                  (JObj [(''type'', JStr ''ack''), (''data'', JObj msg), (''ts'', JStr (utc_iso e))]))
      | Inr _ \<Rightarrow> (Some AttributeError, w))"

text \<open>
  One turn of the loop: \<^verbatim>\<open>receive_text\<close> raises \<^verbatim>\<open>WebSocketDisconnect\<close> when the client has
  gone; both handlers (lines 212 to 218) unregister the connection and the loop is over.
\<close>

definition ws_chat_recv :: "env \<Rightarrow> world \<Rightarrow> string \<Rightarrow> nat \<Rightarrow> inbound \<Rightarrow> status \<times> world" where
  "ws_chat_recv e w user_id websocket i =
     (case i of
        Disconnect \<Rightarrow> (Closed, remove_ws_user w user_id websocket)
      | Frame raw \<Rightarrow>
          (case ws_chat_frame e w user_id websocket raw of
             (None, w') \<Rightarrow> (Open, w')
           | (Some err, w') \<Rightarrow> (Closed, remove_ws_user w' user_id websocket)))"

fun ws_chat_loop :: "env \<Rightarrow> world \<Rightarrow> string \<Rightarrow> nat \<Rightarrow> inbound list \<Rightarrow> status \<times> world" where
  "ws_chat_loop e w user_id websocket [] = (Open, w)"
| "ws_chat_loop e w user_id websocket (i # rest) =
     (case ws_chat_recv e w user_id websocket i of
        (Open, w') \<Rightarrow> ws_chat_loop e w' user_id websocket rest
      | (Closed, w') \<Rightarrow> (Closed, w'))"

text \<open>
  The start of \<^verbatim>\<open>ws_chat\<close> (lines 182 to 186): register, then greet. The greeting is sent
  outside the \<^verbatim>\<open>try\<close>, so a failure there ends the handler with the connection still
  registered.
\<close>

definition ws_chat_open :: "env \<Rightarrow> world \<Rightarrow> string \<Rightarrow> nat \<Rightarrow> status \<times> world" where
  "ws_chat_open e w user_id websocket =
     (case send_text e (add_ws_user w user_id websocket) websocket
             (JObj [(''type'', JStr ''ws_hello''),
                    (''data'', JObj [(''ts'', JStr (utc_iso e)), (''user_id'', JStr user_id)])]) of
        (True, w') \<Rightarrow> (Open, w')
      | (False, w') \<Rightarrow> (Closed, w'))"

section \<open>Signaling channel\<close>

text \<open>Lines 233 to 236: as on the chat channel, only \<^verbatim>\<open>JSONDecodeError\<close> is caught.\<close>

definition signal_normalize :: "env \<Rightarrow> string \<Rightarrow> error + json" where
  "signal_normalize e raw =
     (case loads e raw of
        Decoded v \<Rightarrow> Inr v
      | JSONDecodeError \<Rightarrow> Inr (JObj [(''type'', JStr ''raw''), (''data'', JStr raw)])
      | Raised err \<Rightarrow> Inl err)"

text \<open>The body of the receive loop of \<^verbatim>\<open>ws_signal\<close> (lines 232 to 239).\<close>

definition ws_signal_frame :: "env \<Rightarrow> world \<Rightarrow> string \<Rightarrow> nat \<Rightarrow> string \<Rightarrow> error option \<times> world" where
  "ws_signal_frame e w room_id websocket raw =
     (case signal_normalize e raw of
        Inl err \<Rightarrow> (Some err, w)
      | Inr (JObj payload) \<Rightarrow>
          (None, broadcast_room e w room_id
                   (JObj (setdefault payload ''ts'' (JStr (utc_iso e)))) websocket)
      | Inr _ \<Rightarrow> (Some AttributeError, w))"

definition ws_signal_recv :: "env \<Rightarrow> world \<Rightarrow> string \<Rightarrow> nat \<Rightarrow> inbound \<Rightarrow> status \<times> world" where
  "ws_signal_recv e w room_id websocket i =
     (case i of
        Disconnect \<Rightarrow> (Closed, remove_ws_room w room_id websocket)
      | Frame raw \<Rightarrow>
          (case ws_signal_frame e w room_id websocket raw of
             (None, w') \<Rightarrow> (Open, w')
           | (Some err, w') \<Rightarrow> (Closed, remove_ws_room w' room_id websocket)))"

fun ws_signal_loop :: "env \<Rightarrow> world \<Rightarrow> string \<Rightarrow> nat \<Rightarrow> inbound list \<Rightarrow> status \<times> world" where
  "ws_signal_loop e w room_id websocket [] = (Open, w)"
| "ws_signal_loop e w room_id websocket (i # rest) =
     (case ws_signal_recv e w room_id websocket i of
        (Open, w') \<Rightarrow> ws_signal_loop e w' room_id websocket rest
      | (Closed, w') \<Rightarrow> (Closed, w'))"

definition ws_signal_open :: "env \<Rightarrow> world \<Rightarrow> string \<Rightarrow> nat \<Rightarrow> status \<times> world" where
  "ws_signal_open e w room_id websocket =
     (case send_text e (add_ws_room w room_id websocket) websocket
             (JObj [(''type'', JStr ''signal_hello''), (''room'', JStr room_id),
                    (''ts'', JStr (utc_iso e))]) of
        (True, w') \<Rightarrow> (Open, w')
      | (False, w') \<Rightarrow> (Closed, w'))"

section \<open>Lock discipline\<close>

text \<open>
  \<open>mutations_locked held es\<close>: along \<open>es\<close>, started with the lock \<open>held\<close> or free, every
  mutation of a registry lies between an \<open>Acquire\<close> and its \<open>Release\<close>.
  \<open>lock_after\<close> is the state of the lock at the end.
\<close>

fun mutations_locked :: "bool \<Rightarrow> effect list \<Rightarrow> bool" where
  "mutations_locked held [] = True"
| "mutations_locked held (Acquire # es) = mutations_locked True es"
| "mutations_locked held (Release # es) = mutations_locked False es"
| "mutations_locked held (Mutate r # es) = (held \<and> mutations_locked held es)"
| "mutations_locked held (Send ws # es) = mutations_locked held es"
| "mutations_locked held (Put q # es) = mutations_locked held es"

fun lock_after :: "bool \<Rightarrow> effect list \<Rightarrow> bool" where
  "lock_after held [] = held"
| "lock_after held (Acquire # es) = lock_after True es"
| "lock_after held (Release # es) = lock_after False es"
| "lock_after held (x # es) = lock_after held es"

section \<open>Examples\<close>

text \<open>
  Frames for the examples, and the part of \<^verbatim>\<open>json.loads\<close> they need: \<open>demo_loads\<close> agrees
  with \<^verbatim>\<open>json.loads\<close> on the five texts below and on any text that is not JSON, such as
  \<^verbatim>\<open>hello\<close>; the examples use no other text.
\<close>

definition offer_text :: string where
  \<open>offer_text = ''{"type":"offer","sdp":"x","nonce":"n1"}''\<close>

definition stamped_text :: string where
  \<open>stamped_text = ''{"type":"offer","ts":"then"}''\<close>

definition ping_text :: string where
  \<open>ping_text = ''{"type":"ping"}''\<close>

definition message_text :: string where
  \<open>message_text = ''{"type":"message","data":{"text":"hi"}}''\<close>

definition number_text :: string where
  "number_text = ''123''"

definition offer :: pydict where
  "offer = [(''type'', JStr ''offer''), (''sdp'', JStr ''x''), (''nonce'', JStr ''n1'')]"

definition demo_loads :: "string \<Rightarrow> decoded" where
  "demo_loads raw =
     (if raw = number_text then Decoded (JInt 123)
      else if raw = offer_text then Decoded (JObj offer)
      else if raw = stamped_text
        then Decoded (JObj [(''type'', JStr ''offer''), (''ts'', JStr ''then'')])
      else if raw = ping_text then Decoded (JObj [(''type'', JStr ''ping'')])
      else if raw = message_text
        then Decoded (JObj [(''type'', JStr ''message''), (''data'', JObj [(''text'', JStr ''hi'')])])
      else JSONDecodeError)"

text \<open>
  A runtime for the examples: connection 2 is broken, queue 1 is full; \<open>str\<close> of a value
  that is not a string is only applied to \<^verbatim>\<open>None\<close> there.
\<close>

definition demo_env :: env where
  "demo_env = \<lparr> send_fails = (\<lambda>ws. ws = 2), put_fails = (\<lambda>q. q = 1),
     utc_iso = ''2025-01-01T00:00:00+00:00'', uuid4 = ''id-1'',
     loads = demo_loads, repr = (\<lambda>v. ''None'') \<rparr>"

section \<open>Auxiliary definitions\<close>

text \<open>The Python types the adapters depend on: \<^verbatim>\<open>dict\<close> and \<^verbatim>\<open>str\<close>.\<close>

fun is_object :: "json \<Rightarrow> bool" where
  "is_object (JObj d) = True"
| "is_object v = False"

fun is_string :: "json \<Rightarrow> bool" where
  "is_string (JStr s) = True"
| "is_string v = False"

text \<open>Discarding several connections of one key, one \<open>set_discard\<close> after the other.\<close>

definition discard_all :: "(string \<rightharpoonup> nat fset) \<Rightarrow> string \<Rightarrow> nat list \<Rightarrow> (string \<rightharpoonup> nat fset)" where
  "discard_all d k xs = foldl (\<lambda>d x. set_discard d k x) d xs"

section \<open>Invariants and reachable states\<close>

text \<open>
  \<open>reachable\<close>: the states the handlers produce from the empty one, each handler step
  taken as a whole. \<open>no_empty_set\<close> and \<open>queues_fresh\<close> are the properties of the
  registries the theorems below need; \<open>disciplined\<close> says that along the recorded effects
  every mutation is done with the lock held, every send and put with the lock free, and
  the lock is free at the end.
\<close>

definition no_empty_set :: "(string \<rightharpoonup> nat fset) \<Rightarrow> bool" where
  "no_empty_set d = (\<forall>k. d k \<noteq> Some {||})"

definition hub_sets_ok :: "world \<Rightarrow> bool" where
  "hub_sets_ok w = (no_empty_set (ws_by_user w) \<and> no_empty_set (ws_rooms w))"

definition queues_fresh :: "world \<Rightarrow> bool" where
  "queues_fresh w =
     (\<forall>u. distinct (queues_of (sse_queues w) u) \<and>
          (\<forall>q \<in> set (queues_of (sse_queues w) u). q < next_queue w))"

fun sends_unlocked :: "bool \<Rightarrow> effect list \<Rightarrow> bool" where
  "sends_unlocked held [] = True"
| "sends_unlocked held (Acquire # es) = sends_unlocked True es"
| "sends_unlocked held (Release # es) = sends_unlocked False es"
| "sends_unlocked held (Mutate r # es) = sends_unlocked held es"
| "sends_unlocked held (Send ws # es) = (\<not> held \<and> sends_unlocked held es)"
| "sends_unlocked held (Put q # es) = (\<not> held \<and> sends_unlocked held es)"

definition disciplined :: "world \<Rightarrow> bool" where
  "disciplined w =
     (mutations_locked False (effects w) \<and> sends_unlocked False (effects w) \<and>
      \<not> lock_after False (effects w))"

inductive reachable :: "world \<Rightarrow> bool" where
  init: "reachable init_world"
| chat_open: "reachable w \<Longrightarrow> reachable (snd (ws_chat_open e w user_id ws))"
| chat_recv: "reachable w \<Longrightarrow> reachable (snd (ws_chat_recv e w user_id ws i))"
| signal_open: "reachable w \<Longrightarrow> reachable (snd (ws_signal_open e w room_id ws))"
| signal_recv: "reachable w \<Longrightarrow> reachable (snd (ws_signal_recv e w room_id ws i))"
| post: "reachable w \<Longrightarrow> reachable (snd (post_message e w body))"
| sse_open: "reachable w \<Longrightarrow> reachable (snd (sse w user_id))"
| sse_start: "reachable w \<Longrightarrow> reachable (event_gen_start e w q)"
| sse_end: "reachable w \<Longrightarrow> reachable (event_gen_finally w user_id q)"
| reset: "reachable w \<Longrightarrow> reachable (dev_reset w)"

section \<open>Example state\<close>

text \<open>
  A runtime where every send and every put succeeds, and a state reached from the empty
  one: connections 1 and 2 of alice and 3 of bob on the chat channel, queues 0 and 1 of
  alice and 2 of bob, connections 5 and 6 in room r1 and 7 in room r2.
\<close>

definition ok_env :: env where
  "ok_env = demo_env\<lparr>send_fails := (\<lambda>ws. False), put_fails := (\<lambda>q. False)\<rparr>"

definition demo_world :: world where
  "demo_world =
     (let w1 = add_ws_user init_world ''alice'' 1;
          w2 = add_ws_user w1 ''alice'' 2;
          w3 = add_ws_user w2 ''bob'' 3;
          w4 = snd (sse w3 ''alice'');
          w5 = snd (sse w4 ''alice'');
          w6 = snd (sse w5 ''bob'');
          w7 = add_ws_room w6 ''r1'' 5;
          w8 = add_ws_room w7 ''r1'' 6
      in add_ws_room w8 ''r2'' 7)"

section \<open>Message store: history\<close>

lemma slice_from_neg: "k > 0 \<Longrightarrow> slice_from xs (- int k) = drop (length xs - k) xs"
  by (simp add: slice_from_def Let_def max_def nat_diff_distrib')

lemma store_get_append:
  "store_get (store_append ms u m) v = (if v = u then store_get ms u @ [m] else store_get ms v)"
  by (simp add: store_get_def store_append_def)

lemma store_get_append_all:
  "store_get (append_all ms as) u = store_get ms u @ appended_for u as"
proof (induction as arbitrary: ms)
  case Nil
  show ?case by (simp add: append_all_def appended_for_def)
next
  case (Cons a as)
  obtain v m where a: "a = (v, m)" by (cases a)
  have "store_get (append_all ms (a # as)) u = store_get (append_all (store_append ms v m) as) u"
    by (simp add: append_all_def a)
  also have "\<dots> = store_get (store_append ms v m) u @ appended_for u as"
    by (rule Cons.IH)
  also have "\<dots> = store_get ms u @ appended_for u (a # as)"
    by (simp add: store_get_append a appended_for_def)
  finally show ?case .
qed

lemma history_messages_drop:
  "history_messages ms u = drop (length (store_get ms u) - 200) (store_get ms u)"
  unfolding history_messages_def using slice_from_neg [of 200 "store_get ms u"] by simp

text \<open>
  C6. After any run of appends \<open>as\<close> on any store \<open>ms\<close>, the messages of \<open>user_id\<close> are
  those the store held followed by those appended for that user, in the order of the
  appends; \<open>get_history\<close> answers with the last 200 of them, in that order (all of them
  when there are no more than 200, so exactly 200 when there are more), and with the empty
  list for a user the store has no key for. The answer is always a value: the function has
  no error result.
\<close>

theorem history_returns_last_200:
  "get_history (append_all ms as) user_id =
     JObj [(''user_id'', JStr user_id),
           (''messages'', JArr (drop (length (store_get ms user_id @ appended_for user_id as) - 200)
                                 (store_get ms user_id @ appended_for user_id as)))]
   \<and> length (history_messages (append_all ms as) user_id) =
       min 200 (length (store_get ms user_id @ appended_for user_id as))
   \<and> (ms user_id = None \<longrightarrow>
        get_history ms user_id = JObj [(''user_id'', JStr user_id), (''messages'', JArr [])])"
proof (intro conjI impI)
  show "get_history (append_all ms as) user_id =
     JObj [(''user_id'', JStr user_id),
           (''messages'', JArr (drop (length (store_get ms user_id @ appended_for user_id as) - 200)
                                 (store_get ms user_id @ appended_for user_id as)))]"
    by (simp add: get_history_def history_messages_drop store_get_append_all)
  show "length (history_messages (append_all ms as) user_id) =
       min 200 (length (store_get ms user_id @ appended_for user_id as))"
    by (simp add: history_messages_drop store_get_append_all)
next
  assume "ms user_id = None"
  then show "get_history ms user_id = JObj [(''user_id'', JStr user_id), (''messages'', JArr [])]"
    by (simp add: get_history_def history_messages_drop store_get_def)
qed

theorem history_returns_last_200_witness:
  "get_history (append_all Map.empty
       [(''alice'', JStr ''m1''), (''bob'', JStr ''m2''), (''alice'', JStr ''m3'')]) ''alice'' =
     JObj [(''user_id'', JStr ''alice''), (''messages'', JArr [JStr ''m1'', JStr ''m3''])]
   \<and> (Map.empty :: store) ''carol'' = None
   \<and> get_history Map.empty ''carol'' = JObj [(''user_id'', JStr ''carol''), (''messages'', JArr [])]"
  using history_returns_last_200 [of Map.empty
      "[(''alice'', JStr ''m1''), (''bob'', JStr ''m2''), (''alice'', JStr ''m3'')]" "''alice''"]
    history_returns_last_200 [of Map.empty "[]" "''carol''"]
  by (simp add: appended_for_def store_get_def)

section \<open>Hub: the primitive operations\<close>

lemma distinct_snapshot: "distinct (snapshot S)"
  by (simp add: snapshot_def sorted_list_of_fset.rep_eq)

lemma set_snapshot: "set (snapshot S) = fset S"
  by (simp add: snapshot_def)

lemma count_list_distinct: "distinct xs \<Longrightarrow> count_list xs x = (if x \<in> set xs then 1 else 0)"
  by (induction xs) auto

lemma count_list_snapshot: "count_list (snapshot S) h = (if h |\<in>| S then 1 else 0)"
  using distinct_snapshot [of S] set_snapshot [of S]
  by (simp add: count_list_distinct)

lemma send_text_received:
  "ws_received (snd (send_text e w ws p)) h =
     ws_received w h @ (if h = ws \<and> \<not> send_fails e ws then [p] else [])"
  by (simp add: send_text_def log_def Let_def)

lemma send_text_fst: "fst (send_text e w ws p) = (\<not> send_fails e ws)"
  by (simp add: send_text_def Let_def)

lemma send_text_frame:
  "ws_by_user (snd (send_text e w ws p)) = ws_by_user w"
  "ws_rooms (snd (send_text e w ws p)) = ws_rooms w"
  "sse_queues (snd (send_text e w ws p)) = sse_queues w"
  "MESSAGES (snd (send_text e w ws p)) = MESSAGES w"
  "queue_items (snd (send_text e w ws p)) = queue_items w"
  "next_queue (snd (send_text e w ws p)) = next_queue w"
  "effects (snd (send_text e w ws p)) = effects w @ [Send ws]"
  by (simp_all add: send_text_def log_def Let_def)

lemma remove_ws_user_frame:
  "ws_by_user (remove_ws_user w u ws) = set_discard (ws_by_user w) u ws"
  "ws_rooms (remove_ws_user w u ws) = ws_rooms w"
  "sse_queues (remove_ws_user w u ws) = sse_queues w"
  "MESSAGES (remove_ws_user w u ws) = MESSAGES w"
  "ws_received (remove_ws_user w u ws) = ws_received w"
  "queue_items (remove_ws_user w u ws) = queue_items w"
  "next_queue (remove_ws_user w u ws) = next_queue w"
  "effects (remove_ws_user w u ws) = effects w @ [Acquire, Mutate ChatByUser, Release]"
  by (simp_all add: remove_ws_user_def log_def)

lemma remove_ws_room_frame:
  "ws_by_user (remove_ws_room w r ws) = ws_by_user w"
  "ws_rooms (remove_ws_room w r ws) = set_discard (ws_rooms w) r ws"
  "sse_queues (remove_ws_room w r ws) = sse_queues w"
  "MESSAGES (remove_ws_room w r ws) = MESSAGES w"
  "ws_received (remove_ws_room w r ws) = ws_received w"
  "queue_items (remove_ws_room w r ws) = queue_items w"
  "next_queue (remove_ws_room w r ws) = next_queue w"
  "effects (remove_ws_room w r ws) = effects w @ [Acquire, Mutate RoomMembers, Release]"
  by (simp_all add: remove_ws_room_def log_def)

lemma add_ws_user_frame:
  "ws_by_user (add_ws_user w u ws) = set_add (ws_by_user w) u ws"
  "ws_rooms (add_ws_user w u ws) = ws_rooms w"
  "sse_queues (add_ws_user w u ws) = sse_queues w"
  "MESSAGES (add_ws_user w u ws) = MESSAGES w"
  "ws_received (add_ws_user w u ws) = ws_received w"
  "queue_items (add_ws_user w u ws) = queue_items w"
  "next_queue (add_ws_user w u ws) = next_queue w"
  "effects (add_ws_user w u ws) = effects w @ [Acquire, Mutate ChatByUser, Release]"
  by (simp_all add: add_ws_user_def log_def)

lemma add_ws_room_frame:
  "ws_by_user (add_ws_room w r ws) = ws_by_user w"
  "ws_rooms (add_ws_room w r ws) = set_add (ws_rooms w) r ws"
  "sse_queues (add_ws_room w r ws) = sse_queues w"
  "MESSAGES (add_ws_room w r ws) = MESSAGES w"
  "ws_received (add_ws_room w r ws) = ws_received w"
  "queue_items (add_ws_room w r ws) = queue_items w"
  "next_queue (add_ws_room w r ws) = next_queue w"
  "effects (add_ws_room w r ws) = effects w @ [Acquire, Mutate RoomMembers, Release]"
  by (simp_all add: add_ws_room_def log_def)

lemma put_nowait_items:
  "queue_items (snd (put_nowait e w q p)) q' =
     queue_items w q' @ (if q' = q \<and> \<not> put_fails e q then [p] else [])"
  by (simp add: put_nowait_def log_def Let_def)

lemma put_nowait_frame:
  "ws_by_user (snd (put_nowait e w q p)) = ws_by_user w"
  "ws_rooms (snd (put_nowait e w q p)) = ws_rooms w"
  "sse_queues (snd (put_nowait e w q p)) = sse_queues w"
  "MESSAGES (snd (put_nowait e w q p)) = MESSAGES w"
  "ws_received (snd (put_nowait e w q p)) = ws_received w"
  "next_queue (snd (put_nowait e w q p)) = next_queue w"
  "effects (snd (put_nowait e w q p)) = effects w @ [Put q]"
  by (simp_all add: put_nowait_def log_def Let_def)

subsection \<open>Discarding from a registry\<close>

lemma set_discard_other: "k' \<noteq> k \<Longrightarrow> set_discard d k x k' = d k'"
  by (simp add: set_discard_def Let_def)

lemma members_set_discard: "members (set_discard d k x) k = members d k |-| {|x|}"
  by (auto simp: set_discard_def Let_def members_def)

lemma set_discard_no_empty: "set_discard d k x k \<noteq> Some {||}"
  by (simp add: set_discard_def Let_def members_def)

lemma discard_all_other: "k' \<noteq> k \<Longrightarrow> discard_all d k xs k' = d k'"
  unfolding discard_all_def by (induction xs arbitrary: d) (simp_all add: set_discard_other)

lemma members_discard_all: "members (discard_all d k xs) k = members d k |-| fset_of_list xs"
  unfolding discard_all_def
  by (induction xs arbitrary: d) (auto simp: members_set_discard)

lemma discard_all_no_empty: "xs \<noteq> [] \<Longrightarrow> discard_all d k xs k \<noteq> Some {||}"
  unfolding discard_all_def
  by (induction xs arbitrary: d rule: rev_induct) (simp_all add: set_discard_no_empty)

section \<open>Hub: the loops of the broadcasts\<close>

lemma user_step_alt:
  "(case send_text e w ws p of (True, w') \<Rightarrow> w' | (False, w') \<Rightarrow> remove_ws_user w' u ws) =
   (if send_fails e ws then remove_ws_user (snd (send_text e w ws p)) u ws
    else snd (send_text e w ws p))"
  by (simp add: send_text_def Let_def)

lemma room_step_alt:
  "(case send_text e w ws p of (True, w') \<Rightarrow> w' | (False, w') \<Rightarrow> remove_ws_room w' r ws) =
   (if send_fails e ws then remove_ws_room (snd (send_text e w ws p)) r ws
    else snd (send_text e w ws p))"
  by (simp add: send_text_def Let_def)

lemma send_each_user_received:
  "ws_received (send_each_user e u p hs w) h =
     ws_received w h @ (if send_fails e h then [] else replicate (count_list hs h) p)"
proof (induction hs arbitrary: w)
  case Nil
  show ?case by simp
next
  case (Cons a hs)
  show ?case
    by (simp add: Cons.IH user_step_alt send_text_received remove_ws_user_frame
        replicate_app_Cons_same)
qed

lemma send_each_user_frame:
  "ws_rooms (send_each_user e u p hs w) = ws_rooms w"
  "sse_queues (send_each_user e u p hs w) = sse_queues w"
  "MESSAGES (send_each_user e u p hs w) = MESSAGES w"
  "queue_items (send_each_user e u p hs w) = queue_items w"
  "next_queue (send_each_user e u p hs w) = next_queue w"
  by (induction hs arbitrary: w; simp add: user_step_alt send_text_frame remove_ws_user_frame)+

lemma send_each_user_registry:
  "ws_by_user (send_each_user e u p hs w) =
     discard_all (ws_by_user w) u (filter (send_fails e) hs)"
  by (induction hs arbitrary: w)
     (simp_all add: discard_all_def user_step_alt send_text_frame remove_ws_user_frame)

lemma put_each_items:
  "queue_items (put_each e p qs w) q =
     queue_items w q @ (if put_fails e q then [] else replicate (count_list qs q) p)"
  by (induction qs arbitrary: w) (simp_all add: put_nowait_items replicate_app_Cons_same)

lemma put_each_frame:
  "ws_by_user (put_each e p qs w) = ws_by_user w"
  "ws_rooms (put_each e p qs w) = ws_rooms w"
  "sse_queues (put_each e p qs w) = sse_queues w"
  "MESSAGES (put_each e p qs w) = MESSAGES w"
  "ws_received (put_each e p qs w) = ws_received w"
  "next_queue (put_each e p qs w) = next_queue w"
  by (induction qs arbitrary: w; simp add: put_nowait_frame)+

lemma send_each_room_received:
  "ws_received (send_each_room e r p s hs w) h =
     ws_received w h @
       (if h = s \<or> send_fails e h then [] else replicate (count_list hs h) p)"
proof (induction hs arbitrary: w)
  case Nil
  show ?case by simp
next
  case (Cons a hs)
  show ?case
    by (simp add: Cons.IH room_step_alt send_text_received remove_ws_room_frame
        replicate_app_Cons_same)
qed

lemma send_each_room_frame:
  "ws_by_user (send_each_room e r p s hs w) = ws_by_user w"
  "sse_queues (send_each_room e r p s hs w) = sse_queues w"
  "MESSAGES (send_each_room e r p s hs w) = MESSAGES w"
  "queue_items (send_each_room e r p s hs w) = queue_items w"
  "next_queue (send_each_room e r p s hs w) = next_queue w"
  by (induction hs arbitrary: w; simp add: room_step_alt send_text_frame remove_ws_room_frame)+

lemma send_each_room_registry:
  "ws_rooms (send_each_room e r p s hs w) =
     discard_all (ws_rooms w) r (filter (\<lambda>h. h \<noteq> s \<and> send_fails e h) hs)"
  by (induction hs arbitrary: w)
     (simp_all add: discard_all_def room_step_alt send_text_frame remove_ws_room_frame)

section \<open>Hub: what a broadcast does\<close>

lemma broadcast_to_user_received:
  "ws_received (broadcast_to_user e w u p) h =
     ws_received w h @
       (if h |\<in>| members (ws_by_user w) u \<and> \<not> send_fails e h then [p] else [])"
  by (simp add: broadcast_to_user_def Let_def put_each_frame send_each_user_received
      count_list_snapshot)

lemma broadcast_to_user_items:
  "queue_items (broadcast_to_user e w u p) q =
     queue_items w q @
       (if put_fails e q then [] else replicate (count_list (queues_of (sse_queues w) u) q) p)"
  by (simp add: broadcast_to_user_def Let_def put_each_items send_each_user_frame)

lemma broadcast_to_user_frame:
  "ws_rooms (broadcast_to_user e w u p) = ws_rooms w"
  "sse_queues (broadcast_to_user e w u p) = sse_queues w"
  "MESSAGES (broadcast_to_user e w u p) = MESSAGES w"
  "next_queue (broadcast_to_user e w u p) = next_queue w"
  by (simp_all add: broadcast_to_user_def Let_def put_each_frame send_each_user_frame)

lemma broadcast_to_user_registry:
  "ws_by_user (broadcast_to_user e w u p) =
     discard_all (ws_by_user w) u (filter (send_fails e) (snapshot (members (ws_by_user w) u)))"
  by (simp add: broadcast_to_user_def Let_def put_each_frame send_each_user_registry)

lemma broadcast_to_user_members:
  "h |\<in>| members (ws_by_user (broadcast_to_user e w u p)) u \<longleftrightarrow>
     h |\<in>| members (ws_by_user w) u \<and> \<not> send_fails e h"
  by (auto simp: broadcast_to_user_registry members_discard_all fset_of_list.rep_eq set_snapshot)

lemma broadcast_to_user_other_users:
  "u' \<noteq> u \<Longrightarrow> ws_by_user (broadcast_to_user e w u p) u' = ws_by_user w u'"
  by (simp add: broadcast_to_user_registry discard_all_other)

lemma broadcast_room_received:
  "ws_received (broadcast_room e w r p s) h =
     ws_received w h @
       (if h |\<in>| members (ws_rooms w) r \<and> h \<noteq> s \<and> \<not> send_fails e h then [p] else [])"
  by (simp add: broadcast_room_def send_each_room_received count_list_snapshot)

lemma broadcast_room_frame:
  "ws_by_user (broadcast_room e w r p s) = ws_by_user w"
  "sse_queues (broadcast_room e w r p s) = sse_queues w"
  "MESSAGES (broadcast_room e w r p s) = MESSAGES w"
  "queue_items (broadcast_room e w r p s) = queue_items w"
  "next_queue (broadcast_room e w r p s) = next_queue w"
  by (simp_all add: broadcast_room_def send_each_room_frame)

lemma broadcast_room_registry:
  "ws_rooms (broadcast_room e w r p s) =
     discard_all (ws_rooms w) r
       (filter (\<lambda>h. h \<noteq> s \<and> send_fails e h) (snapshot (members (ws_rooms w) r)))"
  by (simp add: broadcast_room_def send_each_room_registry)

lemma broadcast_room_members:
  "h |\<in>| members (ws_rooms (broadcast_room e w r p s)) r \<longleftrightarrow>
     h |\<in>| members (ws_rooms w) r \<and> (h = s \<or> \<not> send_fails e h)"
  by (auto simp: broadcast_room_registry members_discard_all fset_of_list.rep_eq set_snapshot)

lemma broadcast_room_other_rooms:
  "r' \<noteq> r \<Longrightarrow> ws_rooms (broadcast_room e w r p s) r' = ws_rooms w r'"
  by (simp add: broadcast_room_registry discard_all_other)

subsection \<open>The example state\<close>

lemma demo_world_chat:
  "members (ws_by_user demo_world) ''alice'' = {|1, 2|}"
  "members (ws_by_user demo_world) ''bob'' = {|3|}"
  by (auto simp: demo_world_def Let_def sse_def log_def add_ws_user_def add_ws_room_def
      set_add_def members_def init_world_def)

lemma demo_world_queues:
  "queues_of (sse_queues demo_world) ''alice'' = [0, 1]"
  "queues_of (sse_queues demo_world) ''bob'' = [2]"
  by (simp_all add: demo_world_def Let_def sse_def log_def add_ws_user_def add_ws_room_def
      queues_of_def init_world_def)

lemma demo_world_rooms:
  "members (ws_rooms demo_world) ''r1'' = {|5, 6|}"
  "members (ws_rooms demo_world) ''r2'' = {|7|}"
  by (auto simp: demo_world_def Let_def sse_def log_def add_ws_user_def add_ws_room_def
      set_add_def members_def init_world_def)

lemma demo_world_empty:
  "ws_received demo_world h = []"
  "queue_items demo_world q = []"
  by (simp_all add: demo_world_def Let_def sse_def log_def add_ws_user_def add_ws_room_def
      init_world_def)

lemma ok_env_simps:
  "send_fails ok_env ws = False"
  "put_fails ok_env q = False"
  "utc_iso ok_env = ''2025-01-01T00:00:00+00:00''"
  "uuid4 ok_env = ''id-1''"
  by (simp_all add: ok_env_def demo_env_def)

lemma demo_env_simps:
  "send_fails demo_env ws = (ws = 2)"
  "put_fails demo_env q = (q = 1)"
  "utc_iso demo_env = ''2025-01-01T00:00:00+00:00''"
  "uuid4 demo_env = ''id-1''"
  by (simp_all add: demo_env_def)

lemma demo_loads_simps:
  "demo_loads number_text = Decoded (JInt 123)"
  "demo_loads offer_text = Decoded (JObj offer)"
  "demo_loads stamped_text = Decoded (JObj [(''type'', JStr ''offer''), (''ts'', JStr ''then'')])"
  "demo_loads ping_text = Decoded (JObj [(''type'', JStr ''ping'')])"
  "demo_loads message_text =
     Decoded (JObj [(''type'', JStr ''message''), (''data'', JObj [(''text'', JStr ''hi'')])])"
  "demo_loads ''hello'' = JSONDecodeError"
  by (simp_all add: demo_loads_def number_text_def offer_text_def stamped_text_def ping_text_def
      message_text_def)

lemma loads_env_simps:
  "loads demo_env = demo_loads"
  "loads ok_env = demo_loads"
  by (simp_all add: ok_env_def demo_env_def)

section \<open>Handlers preserve what their steps preserve\<close>

lemma send_or_raise_snd: "snd (send_or_raise e w ws p) = snd (send_text e w ws p)"
  by (simp add: send_or_raise_def send_text_def Let_def)

lemma send_or_raise_fst:
  "fst (send_or_raise e w ws p) = (if send_fails e ws then Some SendError else None)"
  by (simp add: send_or_raise_def send_text_def Let_def)

lemma ws_chat_frame_preserves:
  assumes st: "\<And>w ws p. P w \<Longrightarrow> P (snd (send_text e w ws p))"
    and bc: "\<And>w u p. P w \<Longrightarrow> P (broadcast_to_user e w u p)"
    and w: "P w"
  shows "P (snd (ws_chat_frame e w u ws raw))"
proof (cases "chat_normalize e raw")
  case (Inl err)
  then show ?thesis by (simp add: ws_chat_frame_def w)
next
  case (Inr v)
  show ?thesis
  proof (cases v)
    case (JObj msg)
    have echo: "P (snd (send_or_raise e w ws p))" for p
      using st [OF w] by (simp add: send_or_raise_snd)
    show ?thesis
    proof (cases "get msg ''type'' = JStr ''message''")
      case False
      then show ?thesis using Inr JObj echo by (simp add: ws_chat_frame_def Let_def)
    next
      case True
      obtain r w1 where s: "send_or_raise e w ws (JObj [(''type'', JStr ''echo''), (''data'', get msg ''data'')]) = (r, w1)"
        by (cases "send_or_raise e w ws (JObj [(''type'', JStr ''echo''), (''data'', get msg ''data'')])")
      then have w1: "P w1" using echo [of "JObj [(''type'', JStr ''echo''), (''data'', get msg ''data'')]"] by simp
      show ?thesis
        using Inr JObj True s w1 bc [OF w1]
        by (cases r; cases "get msg ''data''")
           (simp_all add: ws_chat_frame_def Let_def)
    qed
  qed (simp_all add: ws_chat_frame_def Inr w)
qed

lemma ws_chat_recv_preserves:
  assumes st: "\<And>w ws p. P w \<Longrightarrow> P (snd (send_text e w ws p))"
    and bc: "\<And>w u p. P w \<Longrightarrow> P (broadcast_to_user e w u p)"
    and rm: "\<And>w u ws. P w \<Longrightarrow> P (remove_ws_user w u ws)"
    and w: "P w"
  shows "P (snd (ws_chat_recv e w u ws i))"
proof (cases i)
  case Disconnect
  then show ?thesis using rm [OF w] by (simp add: ws_chat_recv_def)
next
  case (Frame raw)
  have f: "P (snd (ws_chat_frame e w u ws raw))"
    using st bc w by (rule ws_chat_frame_preserves)
  obtain r w' where s: "ws_chat_frame e w u ws raw = (r, w')"
    by (cases "ws_chat_frame e w u ws raw")
  with f have "P w'" by simp
  then show ?thesis
    using Frame s rm [of w'] by (cases r) (simp_all add: ws_chat_recv_def)
qed

lemma ws_signal_recv_preserves:
  assumes bc: "\<And>w r p s. P w \<Longrightarrow> P (broadcast_room e w r p s)"
    and rm: "\<And>w r ws. P w \<Longrightarrow> P (remove_ws_room w r ws)"
    and w: "P w"
  shows "P (snd (ws_signal_recv e w r ws i))"
proof (cases i)
  case Disconnect
  then show ?thesis using rm [OF w] by (simp add: ws_signal_recv_def)
next
  case (Frame raw)
  show ?thesis
  proof (cases "signal_normalize e raw")
    case (Inl err)
    then show ?thesis
      using Frame rm [OF w] by (simp add: ws_signal_recv_def ws_signal_frame_def)
  next
    case (Inr v)
    then show ?thesis
      using Frame w bc [OF w] rm [OF w]
      by (cases v) (simp_all add: ws_signal_recv_def ws_signal_frame_def)
  qed
qed

lemma ws_chat_open_snd:
  "snd (ws_chat_open e w u ws) =
     snd (send_text e (add_ws_user w u ws) ws
       (JObj [(''type'', JStr ''ws_hello''),
              (''data'', JObj [(''ts'', JStr (utc_iso e)), (''user_id'', JStr u)])]))"
  by (simp add: ws_chat_open_def send_text_def Let_def)

lemma ws_signal_open_snd:
  "snd (ws_signal_open e w r ws) =
     snd (send_text e (add_ws_room w r ws) ws
       (JObj [(''type'', JStr ''signal_hello''), (''room'', JStr r), (''ts'', JStr (utc_iso e))]))"
  by (simp add: ws_signal_open_def send_text_def Let_def)

lemma post_message_snd_cases:
  "snd (post_message e w body) = w \<or>
   (\<exists>u m p. snd (post_message e w body) =
      broadcast_to_user e (w\<lparr>MESSAGES := store_append (MESSAGES w) u m\<rparr>) u p)"
  by (auto simp: post_message_def Let_def split: sum.splits)

section \<open>No empty set in \<open>ws_by_user\<close> and \<open>ws_rooms\<close>\<close>

lemma no_empty_set_add: "no_empty_set d \<Longrightarrow> no_empty_set (set_add d k x)"
  by (simp add: no_empty_set_def set_add_def)

lemma no_empty_set_discard: "no_empty_set d \<Longrightarrow> no_empty_set (set_discard d k x)"
  by (simp add: no_empty_set_def set_discard_def Let_def members_def)

lemma no_empty_discard_all: "no_empty_set d \<Longrightarrow> no_empty_set (discard_all d k xs)"
  unfolding discard_all_def
  by (induction xs arbitrary: d) (simp_all add: no_empty_set_discard)

lemma hub_sets_ok_send_text: "hub_sets_ok w \<Longrightarrow> hub_sets_ok (snd (send_text e w ws p))"
  by (simp add: hub_sets_ok_def send_text_frame)

lemma hub_sets_ok_add_ws_user: "hub_sets_ok w \<Longrightarrow> hub_sets_ok (add_ws_user w u ws)"
  by (simp add: hub_sets_ok_def add_ws_user_frame no_empty_set_add)

lemma hub_sets_ok_remove_ws_user: "hub_sets_ok w \<Longrightarrow> hub_sets_ok (remove_ws_user w u ws)"
  by (simp add: hub_sets_ok_def remove_ws_user_frame no_empty_set_discard)

lemma hub_sets_ok_add_ws_room: "hub_sets_ok w \<Longrightarrow> hub_sets_ok (add_ws_room w r ws)"
  by (simp add: hub_sets_ok_def add_ws_room_frame no_empty_set_add)

lemma hub_sets_ok_remove_ws_room: "hub_sets_ok w \<Longrightarrow> hub_sets_ok (remove_ws_room w r ws)"
  by (simp add: hub_sets_ok_def remove_ws_room_frame no_empty_set_discard)

lemma hub_sets_ok_broadcast_to_user:
  "hub_sets_ok w \<Longrightarrow> hub_sets_ok (broadcast_to_user e w u p)"
  by (simp add: hub_sets_ok_def broadcast_to_user_frame broadcast_to_user_registry
      no_empty_discard_all)

lemma hub_sets_ok_broadcast_room:
  "hub_sets_ok w \<Longrightarrow> hub_sets_ok (broadcast_room e w r p s)"
  by (simp add: hub_sets_ok_def broadcast_room_frame broadcast_room_registry
      no_empty_discard_all)

lemma hub_sets_ok_post_message: "hub_sets_ok w \<Longrightarrow> hub_sets_ok (snd (post_message e w body))"
proof -
  assume w: "hub_sets_ok w"
  have "hub_sets_ok (w\<lparr>MESSAGES := m\<rparr>)" for m
    using w by (simp add: hub_sets_ok_def)
  then show ?thesis
    using w post_message_snd_cases [of e w body]
    by (auto simp: hub_sets_ok_broadcast_to_user)
qed

lemma reachable_hub_sets_ok:
  "reachable w \<Longrightarrow> hub_sets_ok w"
proof (induction rule: reachable.induct)
  case init
  show ?case by (simp add: hub_sets_ok_def no_empty_set_def init_world_def)
next
  case (chat_open w e user_id ws)
  then show ?case
    by (simp add: ws_chat_open_snd hub_sets_ok_send_text hub_sets_ok_add_ws_user)
next
  case (chat_recv w e user_id ws i)
  show ?case
    by (rule ws_chat_recv_preserves)
       (simp_all add: chat_recv.IH hub_sets_ok_send_text hub_sets_ok_broadcast_to_user
         hub_sets_ok_remove_ws_user)
next
  case (signal_open w e room_id ws)
  then show ?case
    by (simp add: ws_signal_open_snd hub_sets_ok_send_text hub_sets_ok_add_ws_room)
next
  case (signal_recv w e room_id ws i)
  show ?case
    by (rule ws_signal_recv_preserves)
       (simp_all add: signal_recv.IH hub_sets_ok_broadcast_room hub_sets_ok_remove_ws_room)
next
  case (post w e body)
  then show ?case by (simp add: hub_sets_ok_post_message)
next
  case (sse_open w user_id)
  then show ?case by (simp add: hub_sets_ok_def sse_def Let_def log_def)
next
  case (sse_start w e q)
  then show ?case by (simp add: hub_sets_ok_def event_gen_start_def)
next
  case (sse_end w user_id q)
  then show ?case by (simp add: hub_sets_ok_def event_gen_finally_def log_def)
next
  case (reset w)
  then show ?case by (simp add: hub_sets_ok_def dev_reset_def)
qed

section \<open>The queues of a user are distinct\<close>

lemma queues_fresh_send_text: "queues_fresh w \<Longrightarrow> queues_fresh (snd (send_text e w ws p))"
  by (simp add: queues_fresh_def send_text_frame)

lemma queues_fresh_add_ws_user: "queues_fresh w \<Longrightarrow> queues_fresh (add_ws_user w u ws)"
  by (simp add: queues_fresh_def add_ws_user_frame)

lemma queues_fresh_remove_ws_user: "queues_fresh w \<Longrightarrow> queues_fresh (remove_ws_user w u ws)"
  by (simp add: queues_fresh_def remove_ws_user_frame)

lemma queues_fresh_add_ws_room: "queues_fresh w \<Longrightarrow> queues_fresh (add_ws_room w r ws)"
  by (simp add: queues_fresh_def add_ws_room_frame)

lemma queues_fresh_remove_ws_room: "queues_fresh w \<Longrightarrow> queues_fresh (remove_ws_room w r ws)"
  by (simp add: queues_fresh_def remove_ws_room_frame)

lemma queues_fresh_broadcast_to_user:
  "queues_fresh w \<Longrightarrow> queues_fresh (broadcast_to_user e w u p)"
  by (simp add: queues_fresh_def broadcast_to_user_frame)

lemma queues_fresh_broadcast_room:
  "queues_fresh w \<Longrightarrow> queues_fresh (broadcast_room e w r p s)"
  by (simp add: queues_fresh_def broadcast_room_frame)

lemma queues_fresh_post_message: "queues_fresh w \<Longrightarrow> queues_fresh (snd (post_message e w body))"
proof -
  assume w: "queues_fresh w"
  have "queues_fresh (w\<lparr>MESSAGES := m\<rparr>)" for m
    using w by (simp add: queues_fresh_def)
  then show ?thesis
    using w post_message_snd_cases [of e w body]
    by (auto simp: queues_fresh_broadcast_to_user)
qed

lemma queues_of_upd:
  "queues_of (m(u \<mapsto> xs)) u' = (if u' = u then xs else queues_of m u')"
  by (simp add: queues_of_def)

lemma sse_frame:
  "sse_queues (snd (sse w u)) =
     (sse_queues w)(u \<mapsto> queues_of (sse_queues w) u @ [next_queue w])"
  "next_queue (snd (sse w u)) = Suc (next_queue w)"
  "ws_by_user (snd (sse w u)) = ws_by_user w"
  "ws_rooms (snd (sse w u)) = ws_rooms w"
  "fst (sse w u) = next_queue w"
  by (simp_all add: sse_def Let_def log_def)

lemma event_gen_finally_frame:
  "sse_queues (event_gen_finally w u q) =
     (sse_queues w)(u \<mapsto> remove1 q (queues_of (sse_queues w) u))"
  "next_queue (event_gen_finally w u q) = next_queue w"
  "ws_by_user (event_gen_finally w u q) = ws_by_user w"
  "ws_rooms (event_gen_finally w u q) = ws_rooms w"
  by (simp_all add: event_gen_finally_def log_def)

lemma queues_fresh_sse:
  assumes "queues_fresh w"
  shows "queues_fresh (snd (sse w u))"
proof -
  have d: "distinct (queues_of (sse_queues w) u')"
    and b: "q \<in> set (queues_of (sse_queues w) u') \<Longrightarrow> q < next_queue w" for u' q
    using assms by (simp_all add: queues_fresh_def)
  have "next_queue w \<notin> set (queues_of (sse_queues w) u)"
    using b [of "next_queue w" u] by auto
  then show ?thesis
    unfolding queues_fresh_def sse_frame queues_of_upd
    using d b by (auto simp: less_Suc_eq)
qed

lemma queues_fresh_event_gen_finally:
  assumes "queues_fresh w"
  shows "queues_fresh (event_gen_finally w u q)"
proof -
  have d: "distinct (queues_of (sse_queues w) u')"
    and b: "q' \<in> set (queues_of (sse_queues w) u') \<Longrightarrow> q' < next_queue w" for u' q'
    using assms by (simp_all add: queues_fresh_def)
  show ?thesis
    unfolding queues_fresh_def event_gen_finally_frame queues_of_upd
    using d b by (auto dest: notin_set_remove1)
qed

lemma reachable_queues_fresh: "reachable w \<Longrightarrow> queues_fresh w"
proof (induction rule: reachable.induct)
  case init
  show ?case by (simp add: queues_fresh_def queues_of_def init_world_def)
next
  case (chat_open w e user_id ws)
  then show ?case
    by (simp add: ws_chat_open_snd queues_fresh_send_text queues_fresh_add_ws_user)
next
  case (chat_recv w e user_id ws i)
  show ?case
    by (rule ws_chat_recv_preserves)
       (simp_all add: chat_recv.IH queues_fresh_send_text queues_fresh_broadcast_to_user
         queues_fresh_remove_ws_user)
next
  case (signal_open w e room_id ws)
  then show ?case
    by (simp add: ws_signal_open_snd queues_fresh_send_text queues_fresh_add_ws_room)
next
  case (signal_recv w e room_id ws i)
  show ?case
    by (rule ws_signal_recv_preserves)
       (simp_all add: signal_recv.IH queues_fresh_broadcast_room queues_fresh_remove_ws_room)
next
  case (post w e body)
  then show ?case by (simp add: queues_fresh_post_message)
next
  case (sse_open w user_id)
  then show ?case by (simp add: queues_fresh_sse)
next
  case (sse_start w e q)
  then show ?case by (simp add: queues_fresh_def event_gen_start_def)
next
  case (sse_end w user_id q)
  then show ?case by (simp add: queues_fresh_event_gen_finally)
next
  case (reset w)
  then show ?case by (simp add: queues_fresh_def dev_reset_def)
qed

lemma reachable_queues_distinct: "reachable w \<Longrightarrow> distinct (queues_of (sse_queues w) u)"
  using reachable_queues_fresh [of w] by (simp add: queues_fresh_def)

section \<open>Broadcast to a user\<close>

text \<open>
  The theorems of this section are about one call of a broadcast that runs to its end
  with no other coroutine changing the hub in between. A broadcast has no error result:
  the exception of every send and of every put is caught inside its loop (lines 55, 61
  and 83), and \<^verbatim>\<open>remove_ws_user\<close> and \<^verbatim>\<open>remove_ws_room\<close> raise nothing.
\<close>

text \<open>
  C1. For every state \<open>w\<close>, user and payload, one call of \<open>broadcast_to_user\<close> sends the
  payload once to each connection in \<open>ws_by_user[user_id]\<close>, and a connection receives it
  (once, the same payload) when its transport takes the send; it puts the payload once on
  each queue of \<open>sse_queues[user_id]\<close>. A connection that is not in \<open>ws_by_user[user_id]\<close>
  and a queue that is not in \<open>sse_queues[user_id]\<close>, so those registered under other
  users only, receive nothing. The list of queues of a user has no queue twice in every
  state the program reaches (\<open>sse\<close> appends a queue it has just created); this is the
  hypothesis on the queues.
\<close>

theorem broadcast_to_user_fan_out:
  "ws_received (broadcast_to_user e w user_id payload) h =
     ws_received w h @
       (if h |\<in>| members (ws_by_user w) user_id \<and> \<not> send_fails e h then [payload] else [])
   \<and> (distinct (queues_of (sse_queues w) user_id) \<longrightarrow>
        queue_items (broadcast_to_user e w user_id payload) q =
          queue_items w q @
            (if q \<in> set (queues_of (sse_queues w) user_id) \<and> \<not> put_fails e q
             then [payload] else []))"
  by (simp add: broadcast_to_user_received broadcast_to_user_items count_list_distinct)

theorem broadcast_to_user_fan_out_witness:
  "distinct (queues_of (sse_queues demo_world) ''alice'')
   \<and> ws_received (broadcast_to_user ok_env demo_world ''alice'' (JStr ''hi'')) 1 = [JStr ''hi'']
   \<and> ws_received (broadcast_to_user ok_env demo_world ''alice'' (JStr ''hi'')) 2 = [JStr ''hi'']
   \<and> ws_received (broadcast_to_user ok_env demo_world ''alice'' (JStr ''hi'')) 3 = []
   \<and> queue_items (broadcast_to_user ok_env demo_world ''alice'' (JStr ''hi'')) 0 = [JStr ''hi'']
   \<and> queue_items (broadcast_to_user ok_env demo_world ''alice'' (JStr ''hi'')) 1 = [JStr ''hi'']
   \<and> queue_items (broadcast_to_user ok_env demo_world ''alice'' (JStr ''hi'')) 2 = []"
  using broadcast_to_user_fan_out [of ok_env demo_world "''alice''" "JStr ''hi''" 1 0]
    broadcast_to_user_fan_out [of ok_env demo_world "''alice''" "JStr ''hi''" 2 1]
    broadcast_to_user_fan_out [of ok_env demo_world "''alice''" "JStr ''hi''" 3 2]
  by (simp add: demo_world_chat demo_world_queues demo_world_empty ok_env_simps)

text \<open>The answer of \<open>post_message\<close> does not look at the transport.\<close>

lemma post_message_response_env:
  assumes "utc_iso e' = utc_iso e" and "uuid4 e' = uuid4 e" and "repr e' = repr e"
  shows "fst (post_message e' w body) = fst (post_message e w body)"
proof -
  have s: "py_str e' v = py_str e v" for v
    by (simp add: py_str_def assms split: json.splits)
  have m: "new_message e' u r t = new_message e u r t" for u r t
    by (simp add: new_message_def assms)
  show ?thesis
    by (simp add: post_message_def Let_def s m split: sum.splits)
qed

text \<open>
  C3. When the send to a connection \<open>h0\<close> of \<open>ws_by_user[user_id]\<close> fails during
  \<open>broadcast_to_user\<close>, \<open>h0\<close> is no longer registered afterwards; the connections whose
  send did not fail are registered exactly as before, the entries of other users are
  untouched, and the key is not left with an empty set. Every other connection of the
  user whose transport takes the send still receives the payload and every queue that
  takes the put still gets it, once per occurrence in the user's list. The caller sees no
  failure: the broadcast has no error result, and \<open>post_message\<close>, which calls it, answers
  the same as with a transport that never fails.
\<close>

theorem send_failure_unregisters_and_continues:
  "h0 |\<in>| members (ws_by_user w) user_id \<Longrightarrow> send_fails e h0 \<Longrightarrow>
     h0 |\<notin>| members (ws_by_user (broadcast_to_user e w user_id payload)) user_id
   \<and> (\<forall>h. \<not> send_fails e h \<longrightarrow>
         (h |\<in>| members (ws_by_user (broadcast_to_user e w user_id payload)) user_id \<longleftrightarrow>
          h |\<in>| members (ws_by_user w) user_id))
   \<and> ws_by_user (broadcast_to_user e w user_id payload) user_id \<noteq> Some {||}
   \<and> (\<forall>u. u \<noteq> user_id \<longrightarrow>
         ws_by_user (broadcast_to_user e w user_id payload) u = ws_by_user w u)
   \<and> (\<forall>h. h |\<in>| members (ws_by_user w) user_id \<and> \<not> send_fails e h \<longrightarrow>
         ws_received (broadcast_to_user e w user_id payload) h = ws_received w h @ [payload])
   \<and> (\<forall>q. \<not> put_fails e q \<longrightarrow>
         queue_items (broadcast_to_user e w user_id payload) q =
           queue_items w q @ replicate (count_list (queues_of (sse_queues w) user_id) q) payload)
   \<and> fst (post_message e w body) = fst (post_message (e\<lparr>send_fails := (\<lambda>ws. False)\<rparr>) w body)"
proof (intro conjI allI impI)
  assume h0: "h0 |\<in>| members (ws_by_user w) user_id" and fails: "send_fails e h0"
  show "h0 |\<notin>| members (ws_by_user (broadcast_to_user e w user_id payload)) user_id"
    using fails by (simp add: broadcast_to_user_members)
  have "h0 \<in> set (filter (send_fails e) (snapshot (members (ws_by_user w) user_id)))"
    using h0 fails by (simp add: set_snapshot)
  then have "filter (send_fails e) (snapshot (members (ws_by_user w) user_id)) \<noteq> []"
    by (metis empty_iff empty_set)
  then show "ws_by_user (broadcast_to_user e w user_id payload) user_id \<noteq> Some {||}"
    by (simp add: broadcast_to_user_registry discard_all_no_empty)
next
  fix h assume "\<not> send_fails e h"
  then show "h |\<in>| members (ws_by_user (broadcast_to_user e w user_id payload)) user_id \<longleftrightarrow>
          h |\<in>| members (ws_by_user w) user_id"
    by (simp add: broadcast_to_user_members)
next
  fix u assume "u \<noteq> user_id"
  then show "ws_by_user (broadcast_to_user e w user_id payload) u = ws_by_user w u"
    by (rule broadcast_to_user_other_users)
next
  fix h assume "h |\<in>| members (ws_by_user w) user_id \<and> \<not> send_fails e h"
  then show "ws_received (broadcast_to_user e w user_id payload) h = ws_received w h @ [payload]"
    by (simp add: broadcast_to_user_received)
next
  fix q assume "\<not> put_fails e q"
  then show "queue_items (broadcast_to_user e w user_id payload) q =
           queue_items w q @ replicate (count_list (queues_of (sse_queues w) user_id) q) payload"
    by (simp add: broadcast_to_user_items)
next
  show "fst (post_message e w body) = fst (post_message (e\<lparr>send_fails := (\<lambda>ws. False)\<rparr>) w body)"
    by (rule post_message_response_env [symmetric]) simp_all
qed

theorem send_failure_unregisters_and_continues_witness:
  "2 |\<in>| members (ws_by_user demo_world) ''alice'' \<and> send_fails demo_env 2
   \<and> 2 |\<notin>| members (ws_by_user (broadcast_to_user demo_env demo_world ''alice'' (JStr ''hi''))) ''alice''
   \<and> 1 |\<in>| members (ws_by_user (broadcast_to_user demo_env demo_world ''alice'' (JStr ''hi''))) ''alice''
   \<and> ws_by_user (broadcast_to_user demo_env demo_world ''alice'' (JStr ''hi'')) ''bob'' = Some {|3|}
   \<and> ws_received (broadcast_to_user demo_env demo_world ''alice'' (JStr ''hi'')) 1 = [JStr ''hi'']
   \<and> queue_items (broadcast_to_user demo_env demo_world ''alice'' (JStr ''hi'')) 0 = [JStr ''hi'']"
proof -
  have a: "2 |\<in>| members (ws_by_user demo_world) ''alice''" "send_fails demo_env 2"
    by (simp_all add: demo_world_chat demo_env_simps)
  note t = send_failure_unregisters_and_continues [OF a, of "JStr ''hi''" "[]"]
  have bob: "ws_by_user demo_world ''bob'' = Some {|3|}"
    by (simp add: demo_world_def Let_def sse_def log_def add_ws_user_def add_ws_room_def
      set_add_def members_def init_world_def)
  show ?thesis
    using a t bob by (simp add: demo_world_chat demo_world_queues demo_world_empty demo_env_simps)
qed

text \<open>
  C10. When the put on a queue \<open>q0\<close> of \<open>sse_queues[user_id]\<close> fails during
  \<open>broadcast_to_user\<close>, nothing else happens for it: \<open>sse_queues\<close> is unchanged (the queue
  stays registered, unlike a connection whose send failed), \<open>q0\<close> gets nothing, every
  other queue that takes the put gets the payload, the connections receive it as in C1,
  and \<open>post_message\<close> answers the same as with queues that never fail.
\<close>

theorem put_failure_is_swallowed:
  "q0 \<in> set (queues_of (sse_queues w) user_id) \<Longrightarrow> put_fails e q0 \<Longrightarrow>
     sse_queues (broadcast_to_user e w user_id payload) = sse_queues w
   \<and> queue_items (broadcast_to_user e w user_id payload) q0 = queue_items w q0
   \<and> (\<forall>q. \<not> put_fails e q \<longrightarrow>
         queue_items (broadcast_to_user e w user_id payload) q =
           queue_items w q @ replicate (count_list (queues_of (sse_queues w) user_id) q) payload)
   \<and> (\<forall>h. ws_received (broadcast_to_user e w user_id payload) h =
         ws_received w h @
           (if h |\<in>| members (ws_by_user w) user_id \<and> \<not> send_fails e h then [payload] else []))
   \<and> fst (post_message e w body) = fst (post_message (e\<lparr>put_fails := (\<lambda>q. False)\<rparr>) w body)"
proof (intro conjI allI impI)
  assume "put_fails e q0"
  then show "queue_items (broadcast_to_user e w user_id payload) q0 = queue_items w q0"
    by (simp add: broadcast_to_user_items)
next
  show "sse_queues (broadcast_to_user e w user_id payload) = sse_queues w"
    by (simp add: broadcast_to_user_frame)
next
  fix q assume "\<not> put_fails e q"
  then show "queue_items (broadcast_to_user e w user_id payload) q =
           queue_items w q @ replicate (count_list (queues_of (sse_queues w) user_id) q) payload"
    by (simp add: broadcast_to_user_items)
next
  fix h
  show "ws_received (broadcast_to_user e w user_id payload) h =
         ws_received w h @
           (if h |\<in>| members (ws_by_user w) user_id \<and> \<not> send_fails e h then [payload] else [])"
    by (rule broadcast_to_user_received)
next
  show "fst (post_message e w body) = fst (post_message (e\<lparr>put_fails := (\<lambda>q. False)\<rparr>) w body)"
    by (rule post_message_response_env [symmetric]) simp_all
qed

theorem put_failure_is_swallowed_witness:
  "1 \<in> set (queues_of (sse_queues demo_world) ''alice'') \<and> put_fails demo_env 1
   \<and> queues_of (sse_queues (broadcast_to_user demo_env demo_world ''alice'' (JStr ''hi''))) ''alice'' = [0, 1]
   \<and> queue_items (broadcast_to_user demo_env demo_world ''alice'' (JStr ''hi'')) 1 = []
   \<and> queue_items (broadcast_to_user demo_env demo_world ''alice'' (JStr ''hi'')) 0 = [JStr ''hi'']
   \<and> ws_received (broadcast_to_user demo_env demo_world ''alice'' (JStr ''hi'')) 1 = [JStr ''hi'']"
proof -
  have a: "1 \<in> set (queues_of (sse_queues demo_world) ''alice'')" "put_fails demo_env 1"
    by (simp_all add: demo_world_queues demo_env_simps)
  note t = put_failure_is_swallowed [OF a, of "JStr ''hi''" "[]"]
  show ?thesis
    using a t by (simp add: demo_world_chat demo_world_queues demo_world_empty demo_env_simps)
qed

section \<open>Broadcast to a room\<close>

text \<open>
  C2. For every state, room, payload and sender, \<open>broadcast_room\<close> sends the payload once
  to each connection of \<open>ws_rooms[room_id]\<close> other than the sender, and such a connection
  receives it when its transport takes the send. The sender receives nothing, a
  connection that is not in \<open>ws_rooms[room_id]\<close> (one of another room) receives nothing,
  and no queue is touched.
\<close>

theorem broadcast_room_excludes_sender:
  "ws_received (broadcast_room e w room_id payload sender) h =
     ws_received w h @
       (if h |\<in>| members (ws_rooms w) room_id \<and> h \<noteq> sender \<and> \<not> send_fails e h
        then [payload] else [])
   \<and> ws_received (broadcast_room e w room_id payload sender) sender = ws_received w sender
   \<and> queue_items (broadcast_room e w room_id payload sender) = queue_items w"
  by (simp add: broadcast_room_received broadcast_room_frame)

theorem broadcast_room_excludes_sender_witness:
  "ws_received (broadcast_room ok_env demo_world ''r1'' (JStr ''offer'') 5) 6 = [JStr ''offer'']
   \<and> ws_received (broadcast_room ok_env demo_world ''r1'' (JStr ''offer'') 5) 5 = []
   \<and> ws_received (broadcast_room ok_env demo_world ''r1'' (JStr ''offer'') 5) 7 = []"
  using broadcast_room_excludes_sender [of ok_env demo_world "''r1''" "JStr ''offer''" 5 6]
    broadcast_room_excludes_sender [of ok_env demo_world "''r1''" "JStr ''offer''" 5 7]
  by (simp add: demo_world_rooms demo_world_empty ok_env_simps)

section \<open>Signaling relay\<close>

lemma map_of_setdefault:
  "map_of (setdefault d k v) k' =
     (if k' = k then (case map_of d k of None \<Rightarrow> Some v | Some x \<Rightarrow> Some x) else map_of d k')"
proof (cases "k \<in> fst ` set d")
  case True
  then obtain x where "map_of d k = Some x"
    by (metis map_of_eq_None_iff not_Some_eq)
  with True show ?thesis by (simp add: setdefault_def)
next
  case False
  then have "map_of d k = None" by (simp add: map_of_eq_None_iff)
  with False show ?thesis
    by (simp add: setdefault_def map_add_def split: option.splits)
qed

text \<open>
  A signaling frame that \<^verbatim>\<open>json.loads\<close> decodes to an object, or that it rejects with
  \<^verbatim>\<open>JSONDecodeError\<close> (then the frame is the wrapper with type raw), is relayed by
  \<open>broadcast_room\<close> to the members of the room other than the sender, and the loop goes on.
  What is relayed is the frame itself when it has a key \<^verbatim>\<open>ts\<close>, whatever its value, and
  the frame with \<^verbatim>\<open>ts\<close> set to the current time added at the end when it has none: the
  value of \<^verbatim>\<open>ts\<close> is the frame's own when there is one, and every other key,
  \<^verbatim>\<open>type\<close> included, keeps its value.
\<close>

lemma signal_object_frame_relayed:
  "signal_normalize e raw = Inr (JObj frame) \<Longrightarrow>
     fst (ws_signal_frame e w room_id websocket raw) = None
   \<and> (\<forall>h. ws_received (snd (ws_signal_frame e w room_id websocket raw)) h =
         ws_received w h @
           (if h |\<in>| members (ws_rooms w) room_id \<and> h \<noteq> websocket \<and> \<not> send_fails e h
            then [JObj (setdefault frame ''ts'' (JStr (utc_iso e)))] else []))
   \<and> setdefault frame ''ts'' (JStr (utc_iso e)) =
       (if ''ts'' \<in> fst ` set frame then frame else frame @ [(''ts'', JStr (utc_iso e))])
   \<and> map_of (setdefault frame ''ts'' (JStr (utc_iso e))) ''ts'' =
       (case map_of frame ''ts'' of None \<Rightarrow> Some (JStr (utc_iso e)) | Some t \<Rightarrow> Some t)
   \<and> (\<forall>k. k \<noteq> ''ts'' \<longrightarrow>
         map_of (setdefault frame ''ts'' (JStr (utc_iso e))) k = map_of frame k)"
  by (simp add: ws_signal_frame_def broadcast_room_received map_of_setdefault)
     (simp add: setdefault_def)

lemma signal_object_frame_relayed_example:
  "signal_normalize ok_env offer_text = Inr (JObj offer)
   \<and> signal_normalize ok_env stamped_text =
       Inr (JObj [(''type'', JStr ''offer''), (''ts'', JStr ''then'')])
   \<and> signal_normalize ok_env ''hello'' =
       Inr (JObj [(''type'', JStr ''raw''), (''data'', JStr ''hello'')])
   \<and> ws_received (snd (ws_signal_frame ok_env demo_world ''r1'' 5 offer_text)) 6 =
       [JObj [(''type'', JStr ''offer''), (''sdp'', JStr ''x''), (''nonce'', JStr ''n1''),
              (''ts'', JStr ''2025-01-01T00:00:00+00:00'')]]
   \<and> ws_received (snd (ws_signal_frame ok_env demo_world ''r1'' 5 offer_text)) 5 = []
   \<and> ws_received (snd (ws_signal_frame ok_env demo_world ''r1'' 5 stamped_text)) 6 =
       [JObj [(''type'', JStr ''offer''), (''ts'', JStr ''then'')]]
   \<and> ws_received (snd (ws_signal_frame ok_env demo_world ''r1'' 5 ''hello'')) 6 =
       [JObj [(''type'', JStr ''raw''), (''data'', JStr ''hello''),
              (''ts'', JStr ''2025-01-01T00:00:00+00:00'')]]"
proof -
  have a: "signal_normalize ok_env offer_text = Inr (JObj offer)"
    and b: "signal_normalize ok_env stamped_text =
       Inr (JObj [(''type'', JStr ''offer''), (''ts'', JStr ''then'')])"
    and c: "signal_normalize ok_env ''hello'' =
       Inr (JObj [(''type'', JStr ''raw''), (''data'', JStr ''hello'')])"
    by (simp_all add: signal_normalize_def loads_env_simps demo_loads_simps)
  note t = signal_object_frame_relayed [OF a, of demo_world "''r1''" 5]
    signal_object_frame_relayed [OF b, of demo_world "''r1''" 5]
    signal_object_frame_relayed [OF c, of demo_world "''r1''" 5]
  show ?thesis
    using a b c t by (simp add: demo_world_rooms demo_world_empty ok_env_simps offer_def)
qed

section \<open>Chat and signaling: inbound frames\<close>

lemma chat_frame_not_object:
  "loads e raw = Decoded v \<Longrightarrow> \<not> is_object v \<Longrightarrow>
   ws_chat_recv e w u ws (Frame raw) = (Closed, remove_ws_user w u ws)"
  by (cases v) (simp_all add: ws_chat_recv_def ws_chat_frame_def chat_normalize_def)

lemma signal_frame_not_object:
  "loads e raw = Decoded v \<Longrightarrow> \<not> is_object v \<Longrightarrow>
   ws_signal_recv e w r ws (Frame raw) = (Closed, remove_ws_room w r ws)"
  by (cases v) (simp_all add: ws_signal_recv_def ws_signal_frame_def signal_normalize_def)

lemma chat_frame_loads_raises:
  "loads e raw = Raised err \<Longrightarrow>
   ws_chat_recv e w u ws (Frame raw) = (Closed, remove_ws_user w u ws)"
  by (simp add: ws_chat_recv_def ws_chat_frame_def chat_normalize_def)

lemma signal_frame_loads_raises:
  "loads e raw = Raised err \<Longrightarrow>
   ws_signal_recv e w r ws (Frame raw) = (Closed, remove_ws_room w r ws)"
  by (simp add: ws_signal_recv_def ws_signal_frame_def signal_normalize_def)

lemma chat_frame_undecodable:
  "loads e raw = JSONDecodeError \<Longrightarrow> \<not> send_fails e ws \<Longrightarrow>
   fst (ws_chat_recv e w u ws (Frame raw)) = Open \<and>
   ws_received (snd (ws_chat_recv e w u ws (Frame raw))) ws =
     ws_received w ws @
       [JObj [(''type'', JStr ''ack''),
              (''data'', JObj [(''type'', JStr ''text''), (''data'', JObj [(''text'', JStr raw)])]),
              (''ts'', JStr (utc_iso e))]] \<and>
   ws_by_user (snd (ws_chat_recv e w u ws (Frame raw))) = ws_by_user w"
  by (simp add: ws_chat_recv_def ws_chat_frame_def chat_normalize_def get_def get_or_def
      send_or_raise_def send_text_def log_def Let_def)

lemma signal_frame_undecodable:
  "loads e raw = JSONDecodeError \<Longrightarrow>
   fst (ws_signal_recv e w r ws (Frame raw)) = Open \<and>
   snd (ws_signal_recv e w r ws (Frame raw)) =
     broadcast_room e w r
       (JObj [(''type'', JStr ''raw''), (''data'', JStr raw), (''ts'', JStr (utc_iso e))]) ws"
  by (simp add: ws_signal_recv_def ws_signal_frame_def signal_normalize_def setdefault_def)

lemma ws_chat_loop_single:
  "fst (ws_chat_loop e w u ws [i]) = fst (ws_chat_recv e w u ws i)"
  by (cases "ws_chat_recv e w u ws i") (simp split: status.splits)

lemma ws_signal_loop_single:
  "fst (ws_signal_loop e w r ws [i]) = fst (ws_signal_recv e w r ws i)"
  by (cases "ws_signal_recv e w r ws i") (simp split: status.splits)

lemma chat_message_data_not_object:
  "loads e raw = Decoded (JObj msg) \<Longrightarrow> get msg ''type'' = JStr ''message'' \<Longrightarrow>
   truthy (get msg ''data'') \<Longrightarrow> \<not> is_object (get msg ''data'') \<Longrightarrow>
   fst (ws_chat_recv e w u ws (Frame raw)) = Closed"
  by (cases "get msg ''data''")
     (simp_all add: ws_chat_recv_def ws_chat_frame_def chat_normalize_def send_or_raise_def
       send_text_def Let_def)

text \<open>
  C5. A text that \<^verbatim>\<open>json.loads\<close> rejects with \<^verbatim>\<open>JSONDecodeError\<close> is wrapped and the
  loop goes on (\<open>chat_frame_undecodable\<close>, \<open>signal_frame_undecodable\<close>). A text that
  decodes to a value that is not an object, such as \<^verbatim>\<open>123\<close>, is not wrapped:
  \<^verbatim>\<open>msg.get\<close> and \<^verbatim>\<open>payload.setdefault\<close> raise \<^verbatim>\<open>AttributeError\<close>, the handler of
  line 215 (243 on the signaling channel) unregisters the connection and the loop is over
  (\<open>chat_frame_not_object\<close>, \<open>signal_frame_not_object\<close>); so is it when \<^verbatim>\<open>json.loads\<close>
  raises an exception other than \<^verbatim>\<open>JSONDecodeError\<close> (\<open>chat_frame_loads_raises\<close>,
  \<open>signal_frame_loads_raises\<close>). Here the connection 1 of alice and the connection 5 of
  room r1 send \<^verbatim>\<open>123\<close> and then \<^verbatim>\<open>hello\<close>: the loop ends at the first frame, nothing
  is sent back, the connection is unregistered and the second frame is never read, while
  \<^verbatim>\<open>hello\<close> alone leaves the loop open.
\<close>

theorem non_object_frame_ends_the_loop:
  "ws_chat_loop ok_env demo_world ''alice'' 1 [Frame number_text, Frame ''hello''] =
     (Closed, remove_ws_user demo_world ''alice'' 1)
   \<and> ws_received (remove_ws_user demo_world ''alice'' 1) 1 = []
   \<and> 1 |\<notin>| members (ws_by_user (remove_ws_user demo_world ''alice'' 1)) ''alice''
   \<and> ws_signal_loop ok_env demo_world ''r1'' 5 [Frame number_text, Frame ''hello''] =
     (Closed, remove_ws_room demo_world ''r1'' 5)
   \<and> ws_received (remove_ws_room demo_world ''r1'' 5) 6 = []
   \<and> fst (ws_chat_loop ok_env demo_world ''alice'' 1 [Frame ''hello'']) = Open
   \<and> fst (ws_signal_loop ok_env demo_world ''r1'' 5 [Frame ''hello'']) = Open"
proof -
  have n: "loads ok_env number_text = Decoded (JInt 123)"
    and h: "loads ok_env ''hello'' = JSONDecodeError"
    by (simp_all add: loads_env_simps demo_loads_simps)
  have "ws_chat_recv ok_env demo_world ''alice'' 1 (Frame number_text) =
      (Closed, remove_ws_user demo_world ''alice'' 1)"
    using n by (rule chat_frame_not_object) simp
  then have c: "ws_chat_loop ok_env demo_world ''alice'' 1 [Frame number_text, Frame ''hello''] =
     (Closed, remove_ws_user demo_world ''alice'' 1)"
    by simp
  have "ws_signal_recv ok_env demo_world ''r1'' 5 (Frame number_text) =
      (Closed, remove_ws_room demo_world ''r1'' 5)"
    using n by (rule signal_frame_not_object) simp
  then have s: "ws_signal_loop ok_env demo_world ''r1'' 5 [Frame number_text, Frame ''hello''] =
     (Closed, remove_ws_room demo_world ''r1'' 5)"
    by simp
  have "fst (ws_chat_recv ok_env demo_world ''alice'' 1 (Frame ''hello'')) = Open"
    using chat_frame_undecodable [OF h, of 1 demo_world "''alice''"] by (simp add: ok_env_simps)
  then have co: "fst (ws_chat_loop ok_env demo_world ''alice'' 1 [Frame ''hello'']) = Open"
    by (simp only: ws_chat_loop_single)
  have "fst (ws_signal_recv ok_env demo_world ''r1'' 5 (Frame ''hello'')) = Open"
    using signal_frame_undecodable [OF h, of demo_world "''r1''" 5] by simp
  then have so: "fst (ws_signal_loop ok_env demo_world ''r1'' 5 [Frame ''hello'']) = Open"
    by (simp only: ws_signal_loop_single)
  show ?thesis
    using c s co so
    by (simp add: remove_ws_user_frame remove_ws_room_frame demo_world_empty members_set_discard
        demo_world_chat)
qed

text \<open>
  C8. The relay stamps and forwards a frame that is an object after line 236
  (\<open>signal_object_frame_relayed\<close>: \<^verbatim>\<open>ts\<close> is added only when the key is absent, an
  existing \<^verbatim>\<open>ts\<close> and every other key keep their values, the sender is left out). It
  does not do so for every inbound frame: the frame \<^verbatim>\<open>123\<close> decodes to a number,
  \<^verbatim>\<open>payload.setdefault\<close> (line 238) raises \<^verbatim>\<open>AttributeError\<close> before
  \<^verbatim>\<open>broadcast_room\<close> is called, and the handler of line 243 unregisters the sender. Here
  connection 5 of room r1 sends \<^verbatim>\<open>123\<close>: connection 6, a member of the room, receives
  nothing and connection 5 is no longer in the room, while the offer frame sent the same
  way reaches connection 6 with \<^verbatim>\<open>ts\<close> added.
\<close>

theorem signal_number_frame_not_relayed:
  "ws_signal_frame ok_env demo_world ''r1'' 5 number_text = (Some AttributeError, demo_world)
   \<and> 6 |\<in>| members (ws_rooms demo_world) ''r1''
   \<and> ws_received (snd (ws_signal_recv ok_env demo_world ''r1'' 5 (Frame number_text))) 6 = []
   \<and> 5 |\<notin>| members (ws_rooms (snd (ws_signal_recv ok_env demo_world ''r1'' 5
                                       (Frame number_text)))) ''r1''
   \<and> ws_received (snd (ws_signal_recv ok_env demo_world ''r1'' 5 (Frame offer_text))) 6 =
       [JObj [(''type'', JStr ''offer''), (''sdp'', JStr ''x''), (''nonce'', JStr ''n1''),
              (''ts'', JStr ''2025-01-01T00:00:00+00:00'')]]"
proof -
  have n: "loads ok_env number_text = Decoded (JInt 123)"
    by (simp add: loads_env_simps demo_loads_simps)
  have f: "ws_signal_frame ok_env demo_world ''r1'' 5 number_text =
      (Some AttributeError, demo_world)"
    using n by (simp add: ws_signal_frame_def signal_normalize_def)
  have r: "ws_signal_recv ok_env demo_world ''r1'' 5 (Frame number_text) =
      (Closed, remove_ws_room demo_world ''r1'' 5)"
    using n by (rule signal_frame_not_object) simp
  have o: "signal_normalize ok_env offer_text = Inr (JObj offer)"
    by (simp add: signal_normalize_def loads_env_simps demo_loads_simps)
  have "ws_signal_recv ok_env demo_world ''r1'' 5 (Frame offer_text) =
      (Open, snd (ws_signal_frame ok_env demo_world ''r1'' 5 offer_text))"
    using o by (simp add: ws_signal_recv_def ws_signal_frame_def)
  then have g: "ws_received (snd (ws_signal_recv ok_env demo_world ''r1'' 5 (Frame offer_text))) 6 =
       [JObj [(''type'', JStr ''offer''), (''sdp'', JStr ''x''), (''nonce'', JStr ''n1''),
              (''ts'', JStr ''2025-01-01T00:00:00+00:00'')]]"
    using signal_object_frame_relayed [OF o, of demo_world "''r1''" 5]
    by (simp add: demo_world_rooms demo_world_empty ok_env_simps offer_def)
  show ?thesis
    using f r g
    by (simp add: remove_ws_room_frame demo_world_empty members_set_discard demo_world_rooms)
qed

section \<open>Posting a message\<close>

lemma strip_user: "strip ''user'' = ''user''"
  by (simp add: strip_def py_isspace_def)

lemma role_of_absent: "map_of body ''role'' = None \<Longrightarrow> role_of body = Inr ''user''"
  by (simp add: role_of_def get_def get_or_def strip_user)

lemma role_of_falsy: "\<not> truthy (get body ''role'') \<Longrightarrow> role_of body = Inr ''user''"
  by (simp add: role_of_def strip_user)

lemma role_of_string:
  "map_of body ''role'' = Some (JStr s) \<Longrightarrow>
   role_of body = Inr (if s = [] then ''user'' else strip s)"
  by (simp add: role_of_def get_def get_or_def strip_user)

lemma role_of_not_string:
  "map_of body ''role'' = Some v \<Longrightarrow> truthy v \<Longrightarrow> \<not> is_string v \<Longrightarrow>
   role_of body = Inl AttributeError"
  by (cases v) (simp_all add: role_of_def get_def get_or_def)

lemma post_message_bad_request:
  "role_of body = Inr role \<Longrightarrow>
   strip (py_str e (get_or body ''user_id'' (JStr []))) = [] \<or>
   strip (py_str e (get_or body ''text'' (JStr []))) = [] \<Longrightarrow>
   post_message e w body = (Inl (HTTPException 400 ''user_id and text are required''), w)"
  by (auto simp: post_message_def Let_def)

lemma post_message_created:
  assumes "role_of body = Inr role"
    and "strip (py_str e (get_or body ''user_id'' (JStr []))) = user_id" and "user_id \<noteq> []"
    and "strip (py_str e (get_or body ''text'' (JStr []))) = text" and "text \<noteq> []"
  shows "fst (post_message e w body) =
           Inr (JObj [(''ok'', JBool True), (''message'', new_message e user_id role text)])"
    and "snd (post_message e w body) =
           broadcast_to_user e (w\<lparr>MESSAGES := store_append (MESSAGES w) user_id
                                               (new_message e user_id role text)\<rparr>) user_id
             (JObj [(''type'', JStr ''message''), (''data'', new_message e user_id role text)])"
    and "store_get (MESSAGES (snd (post_message e w body))) u =
           (if u = user_id then store_get (MESSAGES w) u @ [new_message e user_id role text]
            else store_get (MESSAGES w) u)"
  using assms by (auto simp: post_message_def Let_def broadcast_to_user_frame store_get_append)

text \<open>
  C7. With a role that is absent, empty, \<^verbatim>\<open>null\<close> or a string, \<open>post_message\<close> does what
  is specified (\<open>post_message_bad_request\<close>, \<open>post_message_created\<close>, \<open>role_of_falsy\<close>).
  The role is stripped before \<^verbatim>\<open>user_id\<close> and \<^verbatim>\<open>text\<close> are checked, though, and only a
  string can be stripped: with the role 5 the request ends in \<^verbatim>\<open>AttributeError\<close>, not in
  the bad request of line 125, when \<^verbatim>\<open>user_id\<close> and \<^verbatim>\<open>text\<close> are empty, and no message
  is created when they are not. The state is unchanged in both cases. The third body,
  without a role, gets the bad request.
\<close>

theorem post_message_role_not_a_string:
  "post_message e w [(''user_id'', JStr []), (''text'', JStr []), (''role'', JInt 5)] =
     (Inl AttributeError, w)
   \<and> post_message e w [(''user_id'', JStr ''alice''), (''text'', JStr ''hi''), (''role'', JInt 5)] =
     (Inl AttributeError, w)
   \<and> post_message e w [(''user_id'', JStr []), (''text'', JStr ''hi'')] =
     (Inl (HTTPException 400 ''user_id and text are required''), w)"
  by (simp add: post_message_def role_of_def get_def get_or_def Let_def py_str_def strip_def
      py_isspace_def)

section \<open>The lock\<close>

lemma mutations_locked_append:
  "mutations_locked b (xs @ ys) = (mutations_locked b xs \<and> mutations_locked (lock_after b xs) ys)"
  by (induction b xs rule: mutations_locked.induct) simp_all

lemma sends_unlocked_append:
  "sends_unlocked b (xs @ ys) = (sends_unlocked b xs \<and> sends_unlocked (lock_after b xs) ys)"
  by (induction b xs rule: sends_unlocked.induct) simp_all

lemma lock_after_append: "lock_after b (xs @ ys) = lock_after (lock_after b xs) ys"
  by (induction b xs rule: lock_after.induct) simp_all

lemmas lock_append = mutations_locked_append sends_unlocked_append lock_after_append

lemma disciplined_send_text: "disciplined w \<Longrightarrow> disciplined (snd (send_text e w ws p))"
  by (simp add: disciplined_def send_text_frame lock_append)

lemma disciplined_put_nowait: "disciplined w \<Longrightarrow> disciplined (snd (put_nowait e w q p))"
  by (simp add: disciplined_def put_nowait_frame lock_append)

lemma disciplined_add_ws_user: "disciplined w \<Longrightarrow> disciplined (add_ws_user w u ws)"
  by (simp add: disciplined_def add_ws_user_frame lock_append)

lemma disciplined_remove_ws_user: "disciplined w \<Longrightarrow> disciplined (remove_ws_user w u ws)"
  by (simp add: disciplined_def remove_ws_user_frame lock_append)

lemma disciplined_add_ws_room: "disciplined w \<Longrightarrow> disciplined (add_ws_room w r ws)"
  by (simp add: disciplined_def add_ws_room_frame lock_append)

lemma disciplined_remove_ws_room: "disciplined w \<Longrightarrow> disciplined (remove_ws_room w r ws)"
  by (simp add: disciplined_def remove_ws_room_frame lock_append)

lemma disciplined_send_each_user:
  "disciplined w \<Longrightarrow> disciplined (send_each_user e u p hs w)"
  by (induction hs arbitrary: w)
     (simp_all add: user_step_alt disciplined_send_text disciplined_remove_ws_user)

lemma disciplined_put_each: "disciplined w \<Longrightarrow> disciplined (put_each e p qs w)"
  by (induction qs arbitrary: w) (simp_all add: disciplined_put_nowait)

lemma disciplined_send_each_room:
  "disciplined w \<Longrightarrow> disciplined (send_each_room e r p s hs w)"
  by (induction hs arbitrary: w)
     (simp_all add: room_step_alt disciplined_send_text disciplined_remove_ws_room)

lemma disciplined_broadcast_to_user:
  "disciplined w \<Longrightarrow> disciplined (broadcast_to_user e w u p)"
  by (simp add: broadcast_to_user_def Let_def disciplined_send_each_user disciplined_put_each)

lemma disciplined_broadcast_room:
  "disciplined w \<Longrightarrow> disciplined (broadcast_room e w r p s)"
  by (simp add: broadcast_room_def disciplined_send_each_room)

lemma disciplined_init: "disciplined init_world"
  by (simp add: disciplined_def init_world_def)

text \<open>
  C9. The methods of \<open>Hub\<close> keep the discipline: \<open>add_ws_user\<close>, \<open>remove_ws_user\<close>,
  \<open>add_ws_room\<close> and \<open>remove_ws_room\<close> mutate between acquire and release, and the
  broadcasts send and put with the lock free and unregister a failed connection under the
  lock (the lemmas \<open>disciplined_\<close> above). The push stream does not: \<open>sse\<close> (line 146)
  appends to \<open>sse_queues\<close> and the end of the generator (line 165) removes from it with
  no acquire at all. From the empty state, the only effect of \<open>sse\<close> for alice is an
  unlocked mutation of the push registry, and the end of her stream adds a second one;
  registering and unregistering a chat connection is locked.
\<close>

theorem sse_mutates_without_lock:
  "effects (snd (sse init_world ''alice'')) = [Mutate PushSubscribers]
   \<and> \<not> mutations_locked False (effects (snd (sse init_world ''alice'')))
   \<and> effects (event_gen_finally (snd (sse init_world ''alice'')) ''alice'' 0) =
       [Mutate PushSubscribers, Mutate PushSubscribers]
   \<and> effects (remove_ws_user (add_ws_user init_world ''alice'' 1) ''alice'' 1) =
       [Acquire, Mutate ChatByUser, Release, Acquire, Mutate ChatByUser, Release]
   \<and> mutations_locked False (effects (remove_ws_user (add_ws_user init_world ''alice'' 1) ''alice'' 1))"
  by (simp add: sse_def event_gen_finally_def add_ws_user_def remove_ws_user_def log_def Let_def
      init_world_def)

section \<open>Empty entries\<close>

text \<open>
  C4. No key of \<open>ws_by_user\<close> or \<open>ws_rooms\<close> maps to the empty set in any reachable state
  (\<open>reachable_hub_sets_ok\<close>): \<open>set_discard\<close> pops the key it has emptied, also when a
  failed send unregisters. \<open>sse_queues\<close> is different: the end of the generator removes
  the queue from the list and leaves the key (lines 164 to 167). From the empty state,
  alice opens a stream (queue 0) and closes it: her key maps to the empty list. A chat
  connection that registers and unregisters leaves no key.
\<close>

theorem sse_end_leaves_empty_list:
  "fst (sse init_world ''alice'') = 0
   \<and> sse_queues (snd (sse init_world ''alice'')) ''alice'' = Some [0]
   \<and> sse_queues (event_gen_finally (snd (sse init_world ''alice'')) ''alice'' 0) ''alice'' = Some []
   \<and> ws_by_user (remove_ws_user (add_ws_user init_world ''alice'' 1) ''alice'' 1) ''alice'' = None"
  by (simp add: sse_def event_gen_finally_def add_ws_user_def remove_ws_user_def log_def Let_def
      init_world_def queues_of_def set_add_def set_discard_def members_def)

end
